theory Spec2Isabelle
  imports Complex_Main "HOL-Library.Word" "HOL-Library.Monad_Syntax"
begin

unbundle bit_operations_syntax

chapter \<open>ControLeo2 reflow oven controller: ReflowOven2.ino\<close>

text \<open>
  A shallow embedding of the phase state machine, the heater cycle driver and the profile
  selection of \<^verbatim>\<open>ReflowOven2.ino\<close>. The sketch keeps one global \<^verbatim>\<open>currentState\<close>
  and talks to a thermocouple, a millisecond clock, three heater pins, a buzzer and one
  EEPROM byte. Here the state and the devices form one record that every routine takes
  and returns. A routine that may not return yields an \<open>option\<close>: \<open>None\<close> stands for
  "never returns".

  Conventions.
  \<^item> \<^verbatim>\<open>double\<close> temperatures are reals. The sketch only copies and compares them.
  \<^item> \<^verbatim>\<open>unsigned long\<close> is a 32-bit word, as on the ATmega32U4 of the ControLeo2.
    \<^verbatim>\<open>int\<close> variables that hold small indices and configured numbers are
    integers; the one place where the width of \<^verbatim>\<open>int\<close> matters (the elapsed
    seconds, converted from \<^verbatim>\<open>unsigned long\<close>) is written out for 16 bits.
  \<^item> The scheduler \<^verbatim>\<open>loop\<close> and the button handling are outside this
    development: the routines are studied one call at a time.
  \<^item> Serial and LCD output is not modelled. The display routines and
    \<^verbatim>\<open>EnableBuzzer\<close> live outside this file of the sketch; they are taken not to
    touch the fields modelled here, the buzzer apart.
\<close>

section \<open>Constants\<close>

definition MAX_START_TEMP :: int where "MAX_START_TEMP = 50"
definition NUM_PHASES :: int where "NUM_PHASES = 4"
definition NUM_HEATERS :: nat where "NUM_HEATERS = 3"
definition DEFAULT_PROFILE :: int where "DEFAULT_PROFILE = 0"

section \<open>Profiles\<close>

datatype CrossingDirection = RISE | FALL

record ReflowPhase =
  Name :: string
  ExitTemperatureC :: int
  RisingOrFalling :: CrossingDirection
  MinDurationS :: int
  MaxDurationS :: int
  TargetDurationS :: int
  HeaterPattern :: "int list"
  AlarmOnExit :: bool

text \<open>The positional initialiser of a \<^verbatim>\<open>ReflowPhase\<close>, fields in declaration order.\<close>

definition mkPhase ::
  "string \<Rightarrow> int \<Rightarrow> CrossingDirection \<Rightarrow> int \<Rightarrow> int \<Rightarrow> int \<Rightarrow> int list \<Rightarrow> bool \<Rightarrow> ReflowPhase" where
  "mkPhase n e d mn mx tg hp al =
     \<lparr>Name = n, ExitTemperatureC = e, RisingOrFalling = d, MinDurationS = mn,
      MaxDurationS = mx, TargetDurationS = tg, HeaterPattern = hp, AlarmOnExit = al\<rparr>"

definition idlePhase :: ReflowPhase where
  "idlePhase = mkPhase ''Idle'' 0 RISE 0 0 0 [0b00000000, 0b00000000, 0b00000000] False"

definition coolingPhase :: ReflowPhase where
  "coolingPhase =
     mkPhase ''Cooling'' MAX_START_TEMP FALL 0 0 0 [0b00000000, 0b00000000, 0b00000000] False"

record ReflowProfile =
  ProfileName :: string
  Phases :: "ReflowPhase list"

definition profiles :: "ReflowProfile list" where
  "profiles =
    [\<lparr>ProfileName = ''Lead-free solder'',
      Phases =
       [mkPhase ''Pre-heat'' 150 RISE  0   0 90 [0b11001101, 0b10111110, 0b01010011] False,
        mkPhase ''Soak''     205 RISE 30 120 30 [0b01000100, 0b10101011, 0b00010000] False,
        mkPhase ''Liquidus'' 235 RISE 30  90 60 [0b11011110, 0b10111111, 0b01101101] False,
        mkPhase ''Reflow''   225 FALL 30  90 60 [0b00010001, 0b01000100, 0b00000000] True]\<rparr>,
     \<lparr>ProfileName = ''Leaded solder'',
      Phases =
       [mkPhase ''Pre-heat'' 145 RISE  0   0 90 [0b11001101, 0b01110110, 0b01010011] False,
        mkPhase ''Soak''     180 RISE 30 120 30 [0b01000100, 0b10101011, 0b00010001] False,
        mkPhase ''Liquidus'' 210 RISE 30  90 60 [0b10111110, 0b11110111, 0b00101000] True,
        mkPhase ''Reflow''   180 FALL 30  90 60 [0b01000000, 0b00011000, 0b00000100] False]\<rparr>]"

definition NUM_PROFILES :: int where
  "NUM_PROFILES = int (length profiles)"

section \<open>State and devices\<close>

record OvenState =
  SelectedProfile :: int
  IsFaulted :: bool
  IsActive :: bool
  TemperatureC :: real
  PeakTemperatureC :: real
  LastClocked :: "32 word"
  NextClock :: "32 word"
  NextSample :: "32 word"
  NextCycle :: "32 word"
  ActiveHeatCycle :: int
  ActivePhase :: int
  EnteredCurrentPhase :: "32 word"
  SecInPhase :: int
  ActiveSince :: "32 word"
  PhaseSchedule :: "ReflowPhase list"

text \<open>
  The board adds the devices to the state. \<open>Thermocouple\<close> and \<open>Millis\<close> are the values
  the successive calls of \<^verbatim>\<open>readThermocouple\<close> and \<^verbatim>\<open>millis\<close> deliver, with
  a count of the calls made so far. The three fault codes come from
  \<^verbatim>\<open>ControLeo2.h\<close>, which is not part of the sources: they are parameters of the
  board. \<open>Pins\<close> is the level of each digital pin, \<open>Eeprom\<close> the byte at
  \<^verbatim>\<open>ADDR_CURR_PROFILE\<close>.
\<close>

record Board = OvenState +
  Thermocouple :: "nat \<Rightarrow> real"
  ThermocoupleReads :: nat
  Millis :: "nat \<Rightarrow> 32 word"
  MillisReads :: nat
  FAULT_OPEN :: real
  FAULT_SHORT_GND :: real
  FAULT_SHORT_VCC :: real
  Pins :: "nat \<Rightarrow> bool"
  Buzzer :: bool
  Eeprom :: "8 word"

definition HeaterPins :: "nat list" where
  "HeaterPins = [4, 5, 6]"

definition digitalWrite :: "nat \<Rightarrow> bool \<Rightarrow> Board \<Rightarrow> Board" where
  "digitalWrite pin level w = w\<lparr>Pins := (Pins w)(pin := level)\<rparr>"

definition readThermocouple :: "Board \<Rightarrow> real \<times> Board" where
  "readThermocouple w =
     (Thermocouple w (ThermocoupleReads w), w\<lparr>ThermocoupleReads := Suc (ThermocoupleReads w)\<rparr>)"

definition millis :: "Board \<Rightarrow> 32 word \<times> Board" where
  "millis w = (Millis w (MillisReads w), w\<lparr>MillisReads := Suc (MillisReads w)\<rparr>)"

text \<open>
  \<^verbatim>\<open>int t = (millis() - since) / 1000\<close>: the subtraction and the division are
  \<^verbatim>\<open>unsigned long\<close>, the result is cut to the 16 bits of an \<^verbatim>\<open>int\<close>.
\<close>

definition secondsSince :: "32 word \<Rightarrow> 32 word \<Rightarrow> int" where
  "secondsSince now since = sint (ucast ((now - since) div 1000) :: 16 word)"

definition isFaultCode :: "Board \<Rightarrow> real \<Rightarrow> bool" where
  "isFaultCode w t \<longleftrightarrow> t = FAULT_OPEN w \<or> t = FAULT_SHORT_GND w \<or> t = FAULT_SHORT_VCC w"

text \<open>
  Modelled from the spec: \<^verbatim>\<open>EnableBuzzer\<close> is defined outside this file of the
  sketch. The spec has the core arm the alarm and leaves its timed shut-off to a
  collaborator, so arming is a flag.
\<close>

definition EnableBuzzer :: "bool \<Rightarrow> Board \<Rightarrow> Board" where
  "EnableBuzzer on w = w\<lparr>Buzzer := on\<rparr>"

section \<open>The routines that call each other\<close>

text \<open>
  \<^verbatim>\<open>CaptureTemperatureSample\<close> calls \<^verbatim>\<open>End\<close> on a fault, \<^verbatim>\<open>End\<close> calls
  \<^verbatim>\<open>ResetState\<close>, \<^verbatim>\<open>ResetState\<close> calls \<^verbatim>\<open>CaptureTemperatureSample\<close> and
  \<^verbatim>\<open>TransitionToPhase\<close>, and \<^verbatim>\<open>TransitionToPhase\<close> calls \<^verbatim>\<open>End\<close> beyond
  the last phase. Nothing bounds this recursion, so the four bodies are the branches of
  one partial function on the routine called.
\<close>

datatype routine =
    CaptureTemperatureSample_call
  | End_call bool
  | ResetState_call
  | TransitionToPhase_call int

partial_function (option) run :: "routine \<Rightarrow> Board \<Rightarrow> Board option" where
  "run r w =
    (case r of
       CaptureTemperatureSample_call \<Rightarrow>
         (let (currentTemperature, w1) = readThermocouple w in
          if TemperatureC w1 = currentTemperature then Some w1
          else do {
            w2 \<leftarrow> (if isFaultCode w1 currentTemperature
                   then run (End_call False) (w1\<lparr>IsFaulted := True\<rparr>)
                   else Some (w1\<lparr>IsFaulted := False\<rparr>));
            let w3 = (if currentTemperature > PeakTemperatureC w2
                      then w2\<lparr>PeakTemperatureC := currentTemperature\<rparr> else w2);
            Some (w3\<lparr>TemperatureC := currentTemperature\<rparr>)
          })
     | End_call isUserInitiated \<Rightarrow>
         (let (printed, w1) = millis w;
              w2 = w1\<lparr>PeakTemperatureC := 0\<rparr>;
              (now, w3) = millis w2
          in run ResetState_call (w3\<lparr>ActiveSince := now\<rparr>))
     | ResetState_call \<Rightarrow>
         do {
           w1 \<leftarrow> run CaptureTemperatureSample_call w;
           if TemperatureC w1 > real_of_int MAX_START_TEMP
           then run (TransitionToPhase_call (NUM_PHASES + 1)) (w1\<lparr>IsActive := True\<rparr>)
           else do {
             w2 \<leftarrow> run (TransitionToPhase_call 0) w1;
             Some (w2\<lparr>IsActive := False\<rparr>)
           }
         }
     | TransitionToPhase_call phase \<Rightarrow>
         if phase = ActivePhase w then Some w
         else if phase > NUM_PHASES + 1 then run (End_call False) w
         else
           (let (printed, w1) = millis w;
                oldPhase = PhaseSchedule w1 ! nat (ActivePhase w1);
                w2 = w1\<lparr>ActivePhase := phase\<rparr>;
                (now, w3) = millis w2;
                w4 = w3\<lparr>EnteredCurrentPhase := now\<rparr>
            in Some (if AlarmOnExit oldPhase then EnableBuzzer True w4 else w4)))"

declare run.simps [code]

definition CaptureTemperatureSample :: "Board \<Rightarrow> Board option" where
  "CaptureTemperatureSample w = run CaptureTemperatureSample_call w"

definition End :: "bool \<Rightarrow> Board \<Rightarrow> Board option" where
  "End isUserInitiated w = run (End_call isUserInitiated) w"

definition ResetState :: "Board \<Rightarrow> Board option" where
  "ResetState w = run ResetState_call w"

definition TransitionToPhase :: "int \<Rightarrow> Board \<Rightarrow> Board option" where
  "TransitionToPhase phase w = run (TransitionToPhase_call phase) w"

section \<open>The other routines\<close>

text \<open>The reason and the time handed to \<^verbatim>\<open>MoveToNextPhase\<close> are only printed.\<close>

definition MoveToNextPhase :: "Board \<Rightarrow> Board option" where
  "MoveToNextPhase w = TransitionToPhase (ActivePhase w + 1) w"

definition Start :: "Board \<Rightarrow> Board option" where
  "Start w =
     (let w1 = w\<lparr>PeakTemperatureC := 0\<rparr>;
          (now, w2) = millis w1
      in TransitionToPhase 1 (w2\<lparr>ActiveSince := now, IsActive := True\<rparr>))"

definition CheckForPhaseTransition :: "Board \<Rightarrow> Board option" where
  "CheckForPhaseTransition w =
     (if \<not> IsActive w then Some w
      else if ActivePhase w = 0 then Some w
      else
        (let currentPhase = PhaseSchedule w ! nat (ActivePhase w);
             (now, w1) = millis w;
             timeInPhase = secondsSince now (EnteredCurrentPhase w1);
             dir = RisingOrFalling currentPhase
         in do {
           w2 \<leftarrow> (if dir = RISE then
                    (if real_of_int (ExitTemperatureC currentPhase) \<le> TemperatureC w1 then
                       (if MinDurationS currentPhase = 0 then MoveToNextPhase w1
                        else if timeInPhase > MinDurationS currentPhase then MoveToNextPhase w1
                        else Some w1)
                     else Some w1)
                  else Some w1);
           w3 \<leftarrow> (if dir = FALL then
                    (if real_of_int (ExitTemperatureC currentPhase) \<ge> TemperatureC w2 then
                       (if MinDurationS currentPhase = 0 then MoveToNextPhase w2
                        else if timeInPhase > MinDurationS currentPhase then MoveToNextPhase w2
                        else Some w2)
                     else Some w2)
                  else Some w2);
           (if MaxDurationS currentPhase > 0 then
              (if timeInPhase \<ge> MaxDurationS currentPhase then MoveToNextPhase w3
               else Some w3)
            else Some w3)
         }))"

text \<open>
  The shift is by the duty step before it is advanced. A shift by a negative step, which
  C leaves undefined, does not arise: the step stays within 0..7.
\<close>

definition AdvanceHeatingCycle :: "Board \<Rightarrow> Board" where
  "AdvanceHeatingCycle w =
     (let shifted = drop_bit (nat (ActiveHeatCycle w)) (0b10000000 :: int);
          (mask, w1) =
            (if IsActive w then
               (let w' = w\<lparr>ActiveHeatCycle := ActiveHeatCycle w + 1\<rparr>
                in (shifted, if ActiveHeatCycle w' > 7 then w'\<lparr>ActiveHeatCycle := 0\<rparr> else w'))
             else (0b00000000, w));
          currentPhase = PhaseSchedule w1 ! nat (ActivePhase w1)
      in fold (\<lambda>heaterIx. digitalWrite (HeaterPins ! heaterIx)
                 (HeaterPattern currentPhase ! heaterIx AND mask \<noteq> 0))
           [0..<NUM_HEATERS] w1)"

text \<open>
  \<^verbatim>\<open>NUM_PROFILES\<close> is a \<^verbatim>\<open>sizeof\<close> quotient, so the comparison
  \<^verbatim>\<open>SelectedProfile >= NUM_PROFILES\<close> is unsigned: the \<^verbatim>\<open>int\<close> is read modulo
  \<open>2^16\<close> first.
\<close>

definition asUnsigned :: "int \<Rightarrow> int" where
  "asUnsigned x = x mod 2 ^ 16"

definition AdvanceProfile :: "bool \<Rightarrow> Board \<Rightarrow> Board" where
  "AdvanceProfile silently w =
     (let w1 = w\<lparr>SelectedProfile := SelectedProfile w + 1\<rparr>;
          w2 = (if asUnsigned (SelectedProfile w1) \<ge> NUM_PROFILES
                then w1\<lparr>SelectedProfile := 0\<rparr> else w1);
          newProfile = profiles ! nat (SelectedProfile w2);
          w3 = fold (\<lambda>phaseIx v.
                  v\<lparr>PhaseSchedule := (PhaseSchedule v)[phaseIx + 1 := Phases newProfile ! phaseIx]\<rparr>)
                [0..<nat NUM_PHASES] w2
      in if \<not> silently then w3\<lparr>Eeprom := word_of_int (SelectedProfile w3)\<rparr> else w3)"

text \<open>The loop of \<^verbatim>\<open>setup\<close> that steps to the stored profile.\<close>

partial_function (option) restoreProfile :: "int \<Rightarrow> Board \<Rightarrow> Board option" where
  "restoreProfile lastProfile w =
     (if SelectedProfile w \<noteq> lastProfile
      then restoreProfile lastProfile (AdvanceProfile True w)
      else Some w)"

declare restoreProfile.simps [code]

text \<open>\<^verbatim>\<open>setup\<close>, named \<open>setup_ino\<close> here: the pins, the stored profile, then \<^verbatim>\<open>ResetState\<close>.\<close>

definition setup_ino :: "Board \<Rightarrow> Board option" where
  "setup_ino w =
     (let w1 = fold (\<lambda>i. digitalWrite i False) [4..<8] w;
          w2 = fold (\<lambda>i. digitalWrite (HeaterPins ! i) False) [0..<NUM_HEATERS] w1;
          stored = uint (Eeprom w2);
          lastProfile = (if stored = 255 then DEFAULT_PROFILE else stored)
      in do {
        w3 \<leftarrow> restoreProfile lastProfile w2;
        ResetState w3
      })"

text \<open>The initialiser of \<^verbatim>\<open>currentState\<close>, and a board at power-on around it.\<close>

definition currentState :: OvenState where
  "currentState =
     \<lparr>SelectedProfile = -1, IsFaulted = False, IsActive = False,
      TemperatureC = 0, PeakTemperatureC = 0,
      LastClocked = 0, NextClock = 100, NextSample = 500, NextCycle = 1000,
      ActiveHeatCycle = 0, ActivePhase = 0, EnteredCurrentPhase = 0, SecInPhase = 0,
      ActiveSince = 0,
      PhaseSchedule = [idlePhase, idlePhase, idlePhase, idlePhase, idlePhase, coolingPhase]\<rparr>"

definition powerOn :: "(nat \<Rightarrow> real) \<Rightarrow> (nat \<Rightarrow> 32 word) \<Rightarrow> 8 word \<Rightarrow> Board" where
  "powerOn sensor clock stored =
     OvenState.extend currentState
       \<lparr>Thermocouple = sensor, ThermocoupleReads = 0, Millis = clock, MillisReads = 0,
        FAULT_OPEN = 10000, FAULT_SHORT_GND = 10001, FAULT_SHORT_VCC = 10002,
        Pins = (\<lambda>_. False), Buzzer = False, Eeprom = stored\<rparr>"

section \<open>Notions used to state the properties\<close>

text \<open>
  What the sketch keeps true of its state: the schedule has the \<open>NUM_PHASES + 2\<close> slots of
  the array, Idle first and Cooling last, and the phase index and the duty step stay in
  range. It holds at power-on and every routine keeps it (lemmas \<open>wellFormed_\<close>...).
\<close>

definition wellFormed :: "Board \<Rightarrow> bool" where
  "wellFormed w \<longleftrightarrow>
     length (PhaseSchedule w) = nat (NUM_PHASES + 2) \<and>
     PhaseSchedule w ! 0 = idlePhase \<and>
     PhaseSchedule w ! nat (NUM_PHASES + 1) = coolingPhase \<and>
     0 \<le> ActivePhase w \<and> ActivePhase w \<le> NUM_PHASES + 1 \<and>
     0 \<le> ActiveHeatCycle w \<and> ActiveHeatCycle w \<le> 7"

definition currentPhase :: "Board \<Rightarrow> ReflowPhase" where
  "currentPhase w = PhaseSchedule w ! nat (ActivePhase w)"

text \<open>The elapsed seconds \<^verbatim>\<open>CheckForPhaseTransition\<close> computes when called on \<open>w\<close>.\<close>

definition timeInPhase :: "Board \<Rightarrow> int" where
  "timeInPhase w = secondsSince (fst (millis w)) (EnteredCurrentPhase w)"

text \<open>
  The whole seconds since the phase was entered, as the 32-bit clock gives them: the
  quotient the check computes before it is stored in an \<^verbatim>\<open>int\<close>. Below 32768 the
  stored value is this number (lemma \<open>timeInPhase_elapsed\<close>).
\<close>

definition elapsedSeconds :: "Board \<Rightarrow> nat" where
  "elapsedSeconds w = unat ((fst (millis w) - EnteredCurrentPhase w) div 1000)"

text \<open>The reading the next call of \<^verbatim>\<open>readThermocouple\<close> delivers.\<close>

definition nextReading :: "Board \<Rightarrow> real" where
  "nextReading w = fst (readThermocouple w)"

text \<open>The exit threshold is crossed in the phase's direction.\<close>

definition crossed :: "ReflowPhase \<Rightarrow> real \<Rightarrow> bool" where
  "crossed phase t \<longleftrightarrow>
     (case RisingOrFalling phase of
        RISE \<Rightarrow> t \<ge> real_of_int (ExitTemperatureC phase)
      | FALL \<Rightarrow> t \<le> real_of_int (ExitTemperatureC phase))"

text \<open>The two rules of the check: threshold with minimum duration, and maximum duration.\<close>

definition thresholdRuleFires :: "Board \<Rightarrow> bool" where
  "thresholdRuleFires w \<longleftrightarrow>
     crossed (currentPhase w) (TemperatureC w) \<and>
     (MinDurationS (currentPhase w) = 0 \<or> timeInPhase w > MinDurationS (currentPhase w))"

definition maxDurationExceeded :: "Board \<Rightarrow> bool" where
  "maxDurationExceeded w \<longleftrightarrow>
     MaxDurationS (currentPhase w) > 0 \<and> timeInPhase w \<ge> MaxDurationS (currentPhase w)"

text \<open>The straight-line end of \<^verbatim>\<open>TransitionToPhase\<close>, for a phase within the schedule.\<close>

definition enterPhase :: "int \<Rightarrow> Board \<Rightarrow> Board" where
  "enterPhase phase w =
     (let (printed, w1) = millis w;
          oldPhase = PhaseSchedule w1 ! nat (ActivePhase w1);
          w2 = w1\<lparr>ActivePhase := phase\<rparr>;
          (now, w3) = millis w2;
          w4 = w3\<lparr>EnteredCurrentPhase := now\<rparr>
      in if AlarmOnExit oldPhase then EnableBuzzer True w4 else w4)"

text \<open>
  The result of the check is one advance from the state at its clock read: the call
  \<^verbatim>\<open>TransitionToPhase(ActivePhase + 1)\<close>, which from a phase before Cooling enters
  the next phase at the third clock read, and from Cooling is \<^verbatim>\<open>End(false)\<close>.
\<close>

definition advancedByOne :: "Board \<Rightarrow> Board option \<Rightarrow> bool" where
  "advancedByOne w result \<longleftrightarrow>
     result = TransitionToPhase (ActivePhase w + 1) (snd (millis w)) \<and>
     (if ActivePhase w \<le> NUM_PHASES
      then \<exists>w'. result = Some w' \<and> ActivePhase w' = ActivePhase w + 1 \<and>
             EnteredCurrentPhase w' = Millis w (MillisReads w + 2)
      else result = End False (snd (millis w)))"

text \<open>\<^verbatim>\<open>CaptureTemperatureSample\<close> on a reading that is not a fault code.\<close>

definition afterSample :: "Board \<Rightarrow> Board" where
  "afterSample w =
     (let (currentTemperature, w1) = readThermocouple w in
      if TemperatureC w1 = currentTemperature then w1
      else (let w2 = w1\<lparr>IsFaulted := False\<rparr>;
                w3 = (if currentTemperature > PeakTemperatureC w2
                      then w2\<lparr>PeakTemperatureC := currentTemperature\<rparr> else w2)
            in w3\<lparr>TemperatureC := currentTemperature\<rparr>))"

text \<open>Every reading from now on is a fault code, and none is the stored temperature.\<close>

definition persistentFault :: "Board \<Rightarrow> bool" where
  "persistentFault w \<longleftrightarrow>
     (\<forall>n. ThermocoupleReads w \<le> n \<longrightarrow>
        isFaultCode w (Thermocouple w n) \<and> Thermocouple w n \<noteq> TemperatureC w)"

text \<open>Where the phase index stands when one of the four routines returns.\<close>

definition phaseAfter :: "routine \<Rightarrow> Board \<Rightarrow> Board \<Rightarrow> bool" where
  "phaseAfter r w w' =
     (case r of
        CaptureTemperatureSample_call \<Rightarrow> ActivePhase w' \<in> {ActivePhase w, 0, NUM_PHASES + 1}
      | End_call u \<Rightarrow> ActivePhase w' \<in> {0, NUM_PHASES + 1}
      | ResetState_call \<Rightarrow> ActivePhase w' \<in> {0, NUM_PHASES + 1}
      | TransitionToPhase_call phase \<Rightarrow>
          if phase = ActivePhase w then w' = w
          else if phase > NUM_PHASES + 1 then ActivePhase w' \<in> {0, NUM_PHASES + 1}
          else ActivePhase w' = phase)"

text \<open>What the four routines never write.\<close>

definition sameSetup :: "Board \<Rightarrow> Board \<Rightarrow> bool" where
  "sameSetup w w' \<longleftrightarrow>
     PhaseSchedule w' = PhaseSchedule w \<and> ActiveHeatCycle w' = ActiveHeatCycle w \<and>
     SelectedProfile w' = SelectedProfile w \<and> Thermocouple w' = Thermocouple w \<and>
     Millis w' = Millis w \<and> FAULT_OPEN w' = FAULT_OPEN w \<and>
     FAULT_SHORT_GND w' = FAULT_SHORT_GND w \<and> FAULT_SHORT_VCC w' = FAULT_SHORT_VCC w \<and>
     Pins w' = Pins w \<and> Eeprom w' = Eeprom w"

section \<open>Example boards\<close>

text \<open>
  A board with the lead-free profile loaded, idle, the sensor at 25 degrees, the clock at
  0 and the fault codes 10000, 10001 and 10002.
\<close>

definition bench :: Board where
  "bench =
     (powerOn (\<lambda>_. 25) (\<lambda>_. 0) 255)
       \<lparr>SelectedProfile := 0,
        PhaseSchedule := idlePhase # Phases (profiles ! 0) @ [coolingPhase]\<rparr>"

text \<open>A run in Soak, entered at clock 0, at a given clock and stored temperature.\<close>

definition soaking :: "32 word \<Rightarrow> real \<Rightarrow> Board" where
  "soaking now temperature =
     bench\<lparr>IsActive := True, ActivePhase := 2, TemperatureC := temperature,
           Millis := (\<lambda>_. now)\<rparr>"

text \<open>
  A run in a phase tuned with a maximum below its minimum (exit at 100 rising, 30 s
  minimum, 20 s maximum), 20 s after entry, the threshold reached.
\<close>

definition hold :: Board where
  "hold =
     bench\<lparr>IsActive := True, ActivePhase := 1, TemperatureC := 100, Millis := (\<lambda>_. 20000),
           PhaseSchedule :=
             [idlePhase, mkPhase ''Hold'' 100 RISE 30 20 25 [0, 0, 0] False,
              idlePhase, idlePhase, idlePhase, coolingPhase]\<rparr>"

text \<open>The thermocouple is disconnected: every reading is the open-circuit code.\<close>

definition openCircuit :: Board where
  "openCircuit = bench\<lparr>TemperatureC := 25, Thermocouple := (\<lambda>_. 10000)\<rparr>"

text \<open>The stored temperature is the open-circuit code and the sensor delivers it again.\<close>

definition faultStored :: Board where
  "faultStored = bench\<lparr>Thermocouple := (\<lambda>_. 10000), TemperatureC := 10000\<rparr>"

text \<open>A run in Pre-heat at the last duty step.\<close>

definition lastDutyStep :: Board where
  "lastDutyStep = bench\<lparr>IsActive := True, ActivePhase := 1, ActiveHeatCycle := 7\<rparr>"

text \<open>The oven is still at 180 degrees.\<close>

definition hotOven :: Board where
  "hotOven = bench\<lparr>Thermocouple := (\<lambda>_. 180)\<rparr>"

text \<open>A run in Cooling, the oven at 40 degrees.\<close>

definition cooled :: Board where
  "cooled = bench\<lparr>IsActive := True, ActivePhase := 5, Thermocouple := (\<lambda>_. 40)\<rparr>"

text \<open>
  A run in a phase with a 30 s minimum and no maximum (exit at 100 rising), 32768 s after
  entry, the threshold reached.
\<close>

definition overdue :: Board where
  "overdue =
     bench\<lparr>IsActive := True, ActivePhase := 1, TemperatureC := 100, Millis := (\<lambda>_. 32768000),
           PhaseSchedule :=
             [idlePhase, mkPhase ''Hold'' 100 RISE 30 0 25 [0, 0, 0] False,
              idlePhase, idlePhase, idlePhase, coolingPhase]\<rparr>"

text \<open>
  A run in Cooling with 50 degrees stored, the exit temperature of Cooling, while the
  sensor delivers 50.25.
\<close>

definition coolingHot :: Board where
  "coolingHot =
     bench\<lparr>IsActive := True, ActivePhase := 5, TemperatureC := 50,
           Thermocouple := (\<lambda>_. 50.25)\<rparr>"

text \<open>A run in Cooling with 50 degrees stored, and the thermocouple disconnected.\<close>

definition coolingOpen :: Board where
  "coolingOpen =
     bench\<lparr>IsActive := True, ActivePhase := 5, TemperatureC := 50,
           Thermocouple := (\<lambda>_. 10000)\<rparr>"

text \<open>
  The idle bench with 25 degrees stored; the sensor delivers the open-circuit code once and
  25 degrees from then on.
\<close>

definition glitch :: Board where
  "glitch = bench\<lparr>TemperatureC := 25, Thermocouple := (\<lambda>n. if n = 0 then 10000 else 25)\<rparr>"

section \<open>The routines, unfolded\<close>

lemma CaptureTemperatureSample_unfold:
  "CaptureTemperatureSample w =
     (let (currentTemperature, w1) = readThermocouple w in
      if TemperatureC w1 = currentTemperature then Some w1
      else do {
        w2 \<leftarrow> (if isFaultCode w1 currentTemperature
               then End False (w1\<lparr>IsFaulted := True\<rparr>)
               else Some (w1\<lparr>IsFaulted := False\<rparr>));
        let w3 = (if currentTemperature > PeakTemperatureC w2
                  then w2\<lparr>PeakTemperatureC := currentTemperature\<rparr> else w2);
        Some (w3\<lparr>TemperatureC := currentTemperature\<rparr>)
      })"
  unfolding CaptureTemperatureSample_def End_def
  by (subst run.simps) simp

lemma End_unfold:
  "End isUserInitiated w =
     (let (printed, w1) = millis w;
          w2 = w1\<lparr>PeakTemperatureC := 0\<rparr>;
          (now, w3) = millis w2
      in ResetState (w3\<lparr>ActiveSince := now\<rparr>))"
  unfolding End_def ResetState_def
  by (subst run.simps) simp

lemma ResetState_unfold:
  "ResetState w =
     do {
       w1 \<leftarrow> CaptureTemperatureSample w;
       if TemperatureC w1 > real_of_int MAX_START_TEMP
       then TransitionToPhase (NUM_PHASES + 1) (w1\<lparr>IsActive := True\<rparr>)
       else do {
         w2 \<leftarrow> TransitionToPhase 0 w1;
         Some (w2\<lparr>IsActive := False\<rparr>)
       }
     }"
  unfolding ResetState_def CaptureTemperatureSample_def TransitionToPhase_def
  by (subst run.simps) simp

lemma TransitionToPhase_unfold:
  "TransitionToPhase phase w =
     (if phase = ActivePhase w then Some w
      else if phase > NUM_PHASES + 1 then End False w
      else
        (let (printed, w1) = millis w;
             oldPhase = PhaseSchedule w1 ! nat (ActivePhase w1);
             w2 = w1\<lparr>ActivePhase := phase\<rparr>;
             (now, w3) = millis w2;
             w4 = w3\<lparr>EnteredCurrentPhase := now\<rparr>
         in Some (if AlarmOnExit oldPhase then EnableBuzzer True w4 else w4)))"
  unfolding TransitionToPhase_def End_def
  by (subst run.simps) simp

section \<open>Entering a phase\<close>

lemma enterPhase_fields [simp]:
  "ActivePhase (enterPhase phase w) = phase"
  "EnteredCurrentPhase (enterPhase phase w) = Millis w (Suc (MillisReads w))"
  "MillisReads (enterPhase phase w) = Suc (Suc (MillisReads w))"
  "IsActive (enterPhase phase w) = IsActive w"
  "IsFaulted (enterPhase phase w) = IsFaulted w"
  "TemperatureC (enterPhase phase w) = TemperatureC w"
  "PeakTemperatureC (enterPhase phase w) = PeakTemperatureC w"
  "PhaseSchedule (enterPhase phase w) = PhaseSchedule w"
  "ActiveHeatCycle (enterPhase phase w) = ActiveHeatCycle w"
  "SelectedProfile (enterPhase phase w) = SelectedProfile w"
  "Thermocouple (enterPhase phase w) = Thermocouple w"
  "ThermocoupleReads (enterPhase phase w) = ThermocoupleReads w"
  "Millis (enterPhase phase w) = Millis w"
  "FAULT_OPEN (enterPhase phase w) = FAULT_OPEN w"
  "FAULT_SHORT_GND (enterPhase phase w) = FAULT_SHORT_GND w"
  "FAULT_SHORT_VCC (enterPhase phase w) = FAULT_SHORT_VCC w"
  "ActiveSince (enterPhase phase w) = ActiveSince w"
  "Pins (enterPhase phase w) = Pins w"
  "Eeprom (enterPhase phase w) = Eeprom w"
  "Buzzer (enterPhase phase w) = (AlarmOnExit (currentPhase w) \<or> Buzzer w)"
  by (simp_all add: enterPhase_def millis_def EnableBuzzer_def currentPhase_def Let_def)

lemma TransitionToPhase_same: "TransitionToPhase (ActivePhase w) w = Some w"
  by (simp add: TransitionToPhase_unfold)

lemma TransitionToPhase_within:
  assumes "phase \<noteq> ActivePhase w" and "phase \<le> NUM_PHASES + 1"
  shows "TransitionToPhase phase w = Some (enterPhase phase w)"
  using assms by (simp add: TransitionToPhase_unfold enterPhase_def Let_def split: prod.splits)

lemma TransitionToPhase_beyond:
  assumes "phase \<noteq> ActivePhase w" and "phase > NUM_PHASES + 1"
  shows "TransitionToPhase phase w = End False w"
  using assms by (simp add: TransitionToPhase_unfold)

lemma MoveToNextPhase_interior:
  assumes "0 \<le> ActivePhase v" and "ActivePhase v \<le> NUM_PHASES"
  shows "MoveToNextPhase v = Some (enterPhase (ActivePhase v + 1) v)"
  using assms by (simp add: MoveToNextPhase_def TransitionToPhase_within)

lemma MoveToNextPhase_cooling:
  assumes "ActivePhase v = NUM_PHASES + 1"
  shows "MoveToNextPhase v = End False v"
  using assms by (simp add: MoveToNextPhase_def TransitionToPhase_beyond)

lemma Start_enters_first_phase:
  assumes "ActivePhase w \<noteq> 1"
  shows "\<exists>w'. Start w = Some w' \<and> IsActive w' \<and> ActivePhase w' = 1 \<and>
           PeakTemperatureC w' = 0 \<and> ActiveSince w' = Millis w (MillisReads w) \<and>
           EnteredCurrentPhase w' = Millis w (MillisReads w + 2)"
proof -
  let ?v = "(snd (millis (w\<lparr>PeakTemperatureC := 0\<rparr>)))
              \<lparr>ActiveSince := Millis w (MillisReads w), IsActive := True\<rparr>"
  have "Start w = TransitionToPhase 1 ?v"
    by (simp add: Start_def millis_def Let_def)
  moreover have "TransitionToPhase 1 ?v = Some (enterPhase 1 ?v)"
    using assms TransitionToPhase_within[of 1 ?v] by (simp add: millis_def NUM_PHASES_def)
  ultimately show ?thesis by (simp add: millis_def)
qed

section \<open>Sampling\<close>

lemma CaptureTemperatureSample_stores:
  assumes "CaptureTemperatureSample w = Some w1"
  shows "TemperatureC w1 = nextReading w"
  using assms
  by (auto simp: CaptureTemperatureSample_unfold nextReading_def readThermocouple_def Let_def
      split: if_splits bind_splits)

lemma CaptureTemperatureSample_valid:
  assumes "\<not> isFaultCode w (nextReading w)"
  shows "CaptureTemperatureSample w = Some (afterSample w)"
  using assms
  by (simp add: CaptureTemperatureSample_unfold nextReading_def readThermocouple_def Let_def
      afterSample_def isFaultCode_def)

lemma CaptureTemperatureSample_fault:
  assumes "isFaultCode w (nextReading w)" and "nextReading w \<noteq> TemperatureC w"
  shows "CaptureTemperatureSample w =
           End False (w\<lparr>ThermocoupleReads := Suc (ThermocoupleReads w), IsFaulted := True\<rparr>) \<bind>
             (\<lambda>w2. Some ((if nextReading w > PeakTemperatureC w2
                           then w2\<lparr>PeakTemperatureC := nextReading w\<rparr> else w2)
                          \<lparr>TemperatureC := nextReading w\<rparr>))"
  using assms
  by (simp add: CaptureTemperatureSample_unfold nextReading_def readThermocouple_def Let_def
      isFaultCode_def cong: if_cong)

lemma afterSample_fields [simp]:
  "TemperatureC (afterSample w) = nextReading w"
  "ThermocoupleReads (afterSample w) = Suc (ThermocoupleReads w)"
  "ActivePhase (afterSample w) = ActivePhase w"
  "IsActive (afterSample w) = IsActive w"
  "PhaseSchedule (afterSample w) = PhaseSchedule w"
  "IsFaulted (afterSample w) = (IsFaulted w \<and> nextReading w = TemperatureC w)"
  by (auto simp: afterSample_def nextReading_def readThermocouple_def Let_def)

section \<open>ResetState and End once the sample is in\<close>

lemma ResetState_after_sample:
  assumes "CaptureTemperatureSample w = Some w1"
  shows "\<exists>w'. ResetState w = Some w' \<and> TemperatureC w' = TemperatureC w1 \<and>
           (if TemperatureC w1 > real_of_int MAX_START_TEMP
            then IsActive w' \<and> ActivePhase w' = NUM_PHASES + 1
            else \<not> IsActive w' \<and> ActivePhase w' = 0)"
proof (cases "TemperatureC w1 > real_of_int MAX_START_TEMP")
  case True
  show ?thesis
  proof (cases "ActivePhase w1 = NUM_PHASES + 1")
    case same: True
    have "ResetState w = Some (w1\<lparr>IsActive := True\<rparr>)"
      using assms True same TransitionToPhase_same[of "w1\<lparr>IsActive := True\<rparr>"]
      by (simp add: ResetState_unfold)
    with True same show ?thesis by simp
  next
    case False
    have "ResetState w = Some (enterPhase (NUM_PHASES + 1) (w1\<lparr>IsActive := True\<rparr>))"
      using assms True False
        TransitionToPhase_within[of "NUM_PHASES + 1" "w1\<lparr>IsActive := True\<rparr>"]
      by (simp add: ResetState_unfold)
    with True show ?thesis by simp
  qed
next
  case False
  show ?thesis
  proof (cases "ActivePhase w1 = 0")
    case same: True
    have "ResetState w = Some (w1\<lparr>IsActive := False\<rparr>)"
      using assms False same TransitionToPhase_same[of w1]
      by (simp add: ResetState_unfold)
    with False same show ?thesis by simp
  next
    case diff: False
    have "ResetState w = Some ((enterPhase 0 w1)\<lparr>IsActive := False\<rparr>)"
      using assms False diff TransitionToPhase_within[of 0 w1]
      by (simp add: ResetState_unfold NUM_PHASES_def)
    with False show ?thesis by simp
  qed
qed

lemma ResetState_keeps_fault_flag:
  assumes "CaptureTemperatureSample w = Some w1"
  shows "\<exists>w'. ResetState w = Some w' \<and> IsFaulted w' = IsFaulted w1 \<and>
           ThermocoupleReads w' = ThermocoupleReads w1"
proof -
  have a: "TransitionToPhase p v = Some v \<or> TransitionToPhase p v = Some (enterPhase p v)"
    if "p \<le> NUM_PHASES + 1" for p v
    using that TransitionToPhase_same[of v] TransitionToPhase_within[of p v] by auto
  show ?thesis
    using assms a[of "NUM_PHASES + 1" "w1\<lparr>IsActive := True\<rparr>"] a[of 0 w1]
    by (auto simp: ResetState_unfold NUM_PHASES_def)
qed

lemma ResetState_no_sample:
  assumes "CaptureTemperatureSample w = None"
  shows "ResetState w = None"
  using assms by (simp add: ResetState_unfold)

lemma End_valid:
  assumes "\<not> isFaultCode w (nextReading w)"
  shows "\<exists>w'. End u w = Some w' \<and> (IsFaulted w' \<longrightarrow> IsFaulted w) \<and>
           IsActive w' = (nextReading w > real_of_int MAX_START_TEMP) \<and>
           ActivePhase w' = (if nextReading w > real_of_int MAX_START_TEMP then NUM_PHASES + 1 else 0)"
proof -
  define w3 where "w3 =
    (let (printed, w1) = millis w; w2 = w1\<lparr>PeakTemperatureC := 0\<rparr>; (now, w3) = millis w2
     in w3\<lparr>ActiveSince := now\<rparr>)"
  have e: "End u w = ResetState w3"
    by (simp add: End_unfold w3_def split: prod.splits)
  have n: "nextReading w3 = nextReading w" "isFaultCode w3 = isFaultCode w"
    "IsFaulted w3 = IsFaulted w"
    by (simp_all add: w3_def millis_def nextReading_def readThermocouple_def isFaultCode_def fun_eq_iff)
  have c: "CaptureTemperatureSample w3 = Some (afterSample w3)"
    using CaptureTemperatureSample_valid[of w3] assms n by simp
  from ResetState_after_sample[OF c] ResetState_keeps_fault_flag[OF c] e n
  show ?thesis by (auto split: if_splits)
qed

section \<open>What holds whenever one of the four routines returns\<close>

lemma run_phaseAfter:
  assumes "run r w = Some w'"
  shows "phaseAfter r w w'"
  using assms
proof (induction r w w' rule: run.raw_induct[rotated, consumes 1, case_names step])
  case (step run r w w')
  show ?case
  proof (cases r)
    case CaptureTemperatureSample_call
    show ?thesis
    proof (cases "run (End_call False)
        (w\<lparr>ThermocoupleReads := Suc (ThermocoupleReads w), IsFaulted := True\<rparr>)")
      case None
      with step.hyps CaptureTemperatureSample_call show ?thesis
        by (auto simp: phaseAfter_def readThermocouple_def Let_def split: if_splits bind_splits)
    next
      case (Some w2)
      from step.IH[OF Some] have "ActivePhase w2 \<in> {0, NUM_PHASES + 1}"
        by (simp add: phaseAfter_def)
      with step.hyps CaptureTemperatureSample_call Some show ?thesis
        by (auto simp: phaseAfter_def readThermocouple_def Let_def split: if_splits bind_splits)
    qed
  next
    case (End_call u)
    from step.hyps End_call obtain w3 where "run ResetState_call w3 = Some w'"
      by (auto simp: Let_def split: prod.splits)
    from step.IH[OF this] End_call show ?thesis by (simp add: phaseAfter_def)
  next
    case ResetState_call
    from step.hyps ResetState_call obtain w1 where
      w1: "(if TemperatureC w1 > real_of_int MAX_START_TEMP
            then run (TransitionToPhase_call (NUM_PHASES + 1)) (w1\<lparr>IsActive := True\<rparr>)
            else run (TransitionToPhase_call 0) w1 \<bind> (\<lambda>w2. Some (w2\<lparr>IsActive := False\<rparr>))) = Some w'"
      by (auto split: bind_splits)
    show ?thesis
    proof (cases "TemperatureC w1 > real_of_int MAX_START_TEMP")
      case True
      with w1 have "run (TransitionToPhase_call (NUM_PHASES + 1)) (w1\<lparr>IsActive := True\<rparr>) = Some w'"
        by simp
      from step.IH[OF this] ResetState_call show ?thesis
        by (auto simp: phaseAfter_def split: if_splits)
    next
      case False
      with w1 obtain w2 where t: "run (TransitionToPhase_call 0) w1 = Some w2"
        and w': "w' = w2\<lparr>IsActive := False\<rparr>"
        by (auto split: bind_splits)
      from step.IH[OF t] ResetState_call w' show ?thesis
        by (auto simp: phaseAfter_def NUM_PHASES_def split: if_splits)
    qed
  next
    case (TransitionToPhase_call phase)
    show ?thesis
    proof (cases "phase \<noteq> ActivePhase w \<and> phase > NUM_PHASES + 1")
      case True
      with step.hyps TransitionToPhase_call have "run (End_call False) w = Some w'" by simp
      from step.IH[OF this] True TransitionToPhase_call show ?thesis by (simp add: phaseAfter_def)
    next
      case False
      with step.hyps TransitionToPhase_call show ?thesis
        by (auto simp: phaseAfter_def millis_def EnableBuzzer_def Let_def split: if_splits)
    qed
  qed
qed

lemma End_phase_after:
  assumes "End u w = Some w'"
  shows "ActivePhase w' = 0 \<or> ActivePhase w' = NUM_PHASES + 1"
  using run_phaseAfter[OF assms[unfolded End_def]] by (simp add: phaseAfter_def)

lemma run_sameSetup:
  assumes "run r w = Some w'"
  shows "sameSetup w w'"
  using assms
proof (induction r w w' rule: run.raw_induct[rotated, consumes 1, case_names step])
  case (step run r w w')
  show ?case
  proof (cases r)
    case CaptureTemperatureSample_call
    show ?thesis
    proof (cases "run (End_call False)
        (w\<lparr>ThermocoupleReads := Suc (ThermocoupleReads w), IsFaulted := True\<rparr>)")
      case None
      with step.hyps CaptureTemperatureSample_call show ?thesis
        by (auto simp: sameSetup_def readThermocouple_def Let_def split: if_splits bind_splits)
    next
      case (Some w2)
      from step.IH[OF Some]
      have "sameSetup (w\<lparr>ThermocoupleReads := Suc (ThermocoupleReads w), IsFaulted := True\<rparr>) w2" .
      with step.hyps CaptureTemperatureSample_call Some show ?thesis
        by (auto simp: sameSetup_def readThermocouple_def Let_def split: if_splits bind_splits)
    qed
  next
    case (End_call u)
    define w3 where "w3 =
      (let (printed, w1) = millis w; w2 = w1\<lparr>PeakTemperatureC := 0\<rparr>; (now, w3) = millis w2
       in w3\<lparr>ActiveSince := now\<rparr>)"
    have s: "sameSetup w w3" by (simp add: w3_def sameSetup_def millis_def)
    from step.hyps End_call have "run ResetState_call w3 = Some w'"
      by (simp add: w3_def split: prod.splits)
    from step.IH[OF this] s show ?thesis by (simp add: sameSetup_def)
  next
    case ResetState_call
    from step.hyps ResetState_call obtain w1 where c: "run CaptureTemperatureSample_call w = Some w1"
      and w1: "(if TemperatureC w1 > real_of_int MAX_START_TEMP
            then run (TransitionToPhase_call (NUM_PHASES + 1)) (w1\<lparr>IsActive := True\<rparr>)
            else run (TransitionToPhase_call 0) w1 \<bind> (\<lambda>w2. Some (w2\<lparr>IsActive := False\<rparr>))) = Some w'"
      by (auto split: bind_splits)
    note s1 = step.IH[OF c]
    show ?thesis
    proof (cases "TemperatureC w1 > real_of_int MAX_START_TEMP")
      case True
      with w1 have "run (TransitionToPhase_call (NUM_PHASES + 1)) (w1\<lparr>IsActive := True\<rparr>) = Some w'"
        by simp
      from step.IH[OF this] s1 show ?thesis by (simp add: sameSetup_def)
    next
      case False
      with w1 obtain w2 where t: "run (TransitionToPhase_call 0) w1 = Some w2"
        and w': "w' = w2\<lparr>IsActive := False\<rparr>"
        by (auto split: bind_splits)
      from step.IH[OF t] s1 w' show ?thesis by (simp add: sameSetup_def)
    qed
  next
    case (TransitionToPhase_call phase)
    show ?thesis
    proof (cases "phase \<noteq> ActivePhase w \<and> phase > NUM_PHASES + 1")
      case True
      with step.hyps TransitionToPhase_call have "run (End_call False) w = Some w'" by simp
      from step.IH[OF this] show ?thesis .
    next
      case False
      with step.hyps TransitionToPhase_call show ?thesis
        by (auto simp: sameSetup_def millis_def EnableBuzzer_def Let_def split: if_splits)
    qed
  qed
qed

section \<open>Well-formedness is kept\<close>

lemma wellFormed_powerOn: "wellFormed (powerOn sensor clock stored)"
  by (simp add: wellFormed_def powerOn_def currentState_def OvenState.defs Board.defs NUM_PHASES_def)

lemma wellFormed_run:
  assumes "run r w = Some w'" and "wellFormed w"
    and "\<And>phase. r = TransitionToPhase_call phase \<Longrightarrow> 0 \<le> phase"
  shows "wellFormed w'"
proof -
  note s = run_sameSetup[OF assms(1)] and p = run_phaseAfter[OF assms(1)]
  show ?thesis
  proof (cases r)
    case CaptureTemperatureSample_call
    with s p assms(2) show ?thesis
      by (auto simp: wellFormed_def sameSetup_def phaseAfter_def NUM_PHASES_def)
  next
    case (End_call u)
    with s p assms(2) show ?thesis
      by (auto simp: wellFormed_def sameSetup_def phaseAfter_def NUM_PHASES_def)
  next
    case ResetState_call
    with s p assms(2) show ?thesis
      by (auto simp: wellFormed_def sameSetup_def phaseAfter_def NUM_PHASES_def)
  next
    case (TransitionToPhase_call phase)
    with assms(3) have "0 \<le> phase" by simp
    with s p assms(2) TransitionToPhase_call show ?thesis
      by (auto simp: wellFormed_def sameSetup_def phaseAfter_def NUM_PHASES_def split: if_splits)
  qed
qed

lemma wellFormed_MoveToNextPhase:
  assumes "MoveToNextPhase w = Some w'" and "wellFormed w"
  shows "wellFormed w'"
  using wellFormed_run[OF assms(1)[unfolded MoveToNextPhase_def TransitionToPhase_def] assms(2)]
    assms(2) by (simp add: wellFormed_def)

lemma wellFormed_routines:
  assumes "wellFormed w"
  shows "CaptureTemperatureSample w = Some w' \<Longrightarrow> wellFormed w'"
    and "End u w = Some w' \<Longrightarrow> wellFormed w'"
    and "ResetState w = Some w' \<Longrightarrow> wellFormed w'"
    and "0 \<le> phase \<Longrightarrow> TransitionToPhase phase w = Some w' \<Longrightarrow> wellFormed w'"
  using assms wellFormed_run[of _ w w']
  unfolding CaptureTemperatureSample_def End_def ResetState_def TransitionToPhase_def
  by fastforce+

lemma wellFormed_Start:
  assumes "Start w = Some w'" and "wellFormed w"
  shows "wellFormed w'"
proof -
  let ?v = "(snd (millis (w\<lparr>PeakTemperatureC := 0\<rparr>)))
              \<lparr>ActiveSince := Millis w (MillisReads w), IsActive := True\<rparr>"
  have "TransitionToPhase 1 ?v = Some w'"
    using assms(1) by (simp add: Start_def millis_def Let_def)
  moreover have "wellFormed ?v"
    using assms(2) by (simp add: wellFormed_def millis_def)
  ultimately show ?thesis
    using wellFormed_routines(4)[of ?v 1 w'] by simp
qed


section \<open>The two rules of CheckForPhaseTransition\<close>

lemma CheckForPhaseTransition_rules:
  assumes "IsActive w" and "ActivePhase w \<noteq> 0"
  shows "CheckForPhaseTransition w =
           (if thresholdRuleFires w then MoveToNextPhase (snd (millis w)) else Some (snd (millis w)))
             \<bind> (\<lambda>w3. if maxDurationExceeded w then MoveToNextPhase w3 else Some w3)"
proof (cases "RisingOrFalling (currentPhase w)")
  case RISE
  with assms show ?thesis
    by (simp add: CheckForPhaseTransition_def thresholdRuleFires_def maxDurationExceeded_def
        crossed_def currentPhase_def timeInPhase_def millis_def Let_def)
next
  case FALL
  with assms show ?thesis
    by (simp add: CheckForPhaseTransition_def thresholdRuleFires_def maxDurationExceeded_def
        crossed_def currentPhase_def timeInPhase_def millis_def Let_def)
qed

lemma wellFormed_CheckForPhaseTransition:
  assumes "CheckForPhaseTransition w = Some w'" and "wellFormed w"
  shows "wellFormed w'"
proof (cases "IsActive w \<and> ActivePhase w \<noteq> 0")
  case False
  then have "CheckForPhaseTransition w = Some w"
    by (simp add: CheckForPhaseTransition_def)
  with assms show ?thesis by simp
next
  case True
  have v: "wellFormed (snd (millis w))"
    using assms(2) by (simp add: wellFormed_def millis_def)
  from True assms(1) CheckForPhaseTransition_rules[of w]
  obtain w2 where a: "(if thresholdRuleFires w then MoveToNextPhase (snd (millis w))
                       else Some (snd (millis w))) = Some w2"
    and b: "(if maxDurationExceeded w then MoveToNextPhase w2 else Some w2) = Some w'"
    by (auto split: bind_splits)
  from a v have "wellFormed w2"
    by (auto dest: wellFormed_MoveToNextPhase split: if_splits)
  with b show ?thesis
    by (auto dest: wellFormed_MoveToNextPhase split: if_splits)
qed

lemma cooling_has_no_max:
  assumes "wellFormed w" and "maxDurationExceeded w"
  shows "ActivePhase w \<noteq> NUM_PHASES + 1"
  using assms
  by (auto simp: wellFormed_def maxDurationExceeded_def currentPhase_def coolingPhase_def mkPhase_def)

text \<open>Exactly one of the two rules fires: one advance.\<close>

lemma single_advance:
  assumes "wellFormed w" and "IsActive w" and "ActivePhase w \<noteq> 0"
    and "thresholdRuleFires w \<noteq> maxDurationExceeded w"
  shows "advancedByOne w (CheckForPhaseTransition w)"
proof -
  let ?v = "snd (millis w)"
  have c: "CheckForPhaseTransition w = MoveToNextPhase ?v"
    using assms(4) CheckForPhaseTransition_rules[OF assms(2,3)] by auto
  have v: "ActivePhase ?v = ActivePhase w" "MillisReads ?v = Suc (MillisReads w)" "Millis ?v = Millis w"
    by (simp_all add: millis_def)
  have r: "0 \<le> ActivePhase w" "ActivePhase w \<le> NUM_PHASES + 1"
    using assms(1) by (simp_all add: wellFormed_def)
  show ?thesis
  proof (cases "ActivePhase w \<le> NUM_PHASES")
    case True
    then have "MoveToNextPhase ?v = Some (enterPhase (ActivePhase w + 1) ?v)"
      using MoveToNextPhase_interior[of ?v] r v by simp
    with c True v show ?thesis
      by (simp add: advancedByOne_def MoveToNextPhase_def)
  next
    case False
    with r have "ActivePhase ?v = NUM_PHASES + 1" using v by simp
    from MoveToNextPhase_cooling[OF this] c False v show ?thesis
      by (simp add: advancedByOne_def MoveToNextPhase_def)
  qed
qed

text \<open>Neither rule fires: the state stays, the clock has been read once.\<close>

lemma no_advance:
  assumes "IsActive w" and "ActivePhase w \<noteq> 0"
    and "\<not> thresholdRuleFires w" and "\<not> maxDurationExceeded w"
  shows "CheckForPhaseTransition w = Some (snd (millis w))"
  using assms(3,4) CheckForPhaseTransition_rules[OF assms(1,2)] by simp

text \<open>
  In the two profiles of the sketch every minimum is below the maximum, so there a
  threshold reached before the minimum has passed never moves the run on.
\<close>

lemma shipped_min_below_max:
  assumes "profile \<in> set profiles" and "phase \<in> set (Phases profile)"
    and "MinDurationS phase > 0"
  shows "MinDurationS phase < MaxDurationS phase"
  using assms by (auto simp: profiles_def mkPhase_def)

lemma shipped_threshold_rule:
  assumes "IsActive w" and "ActivePhase w \<noteq> 0"
    and "profile \<in> set profiles" and "currentPhase w \<in> set (Phases profile)"
    and "MinDurationS (currentPhase w) > 0"
    and "timeInPhase w \<le> MinDurationS (currentPhase w)"
  shows "CheckForPhaseTransition w = Some (snd (millis w))"
proof -
  have "MinDurationS (currentPhase w) < MaxDurationS (currentPhase w)"
    using shipped_min_below_max[OF assms(3,4,5)] .
  with assms(6) have "\<not> maxDurationExceeded w" "\<not> thresholdRuleFires w"
    using assms(5) by (simp_all add: maxDurationExceeded_def thresholdRuleFires_def)
  with no_advance[OF assms(1,2)] show ?thesis by simp
qed

text \<open>
  Both rules fire: the maximum-duration test still looks at the phase and the time the
  check started with, so \<^verbatim>\<open>MoveToNextPhase\<close> runs a second time, from the phase just
  entered.
\<close>

lemma double_fire:
  assumes "wellFormed w" and "IsActive w" and "ActivePhase w \<noteq> 0"
    and "thresholdRuleFires w" and "maxDurationExceeded w"
  shows "CheckForPhaseTransition w =
           (if ActivePhase w < NUM_PHASES
            then Some (enterPhase (ActivePhase w + 2) (enterPhase (ActivePhase w + 1) (snd (millis w))))
            else End False (enterPhase (NUM_PHASES + 1) (snd (millis w))))"
proof -
  let ?v = "snd (millis w)"
  let ?u = "enterPhase (ActivePhase w + 1) ?v"
  have v: "ActivePhase ?v = ActivePhase w" by (simp add: millis_def)
  have r: "0 \<le> ActivePhase w" "ActivePhase w \<le> NUM_PHASES"
    using assms(1) cooling_has_no_max[OF assms(1,5)] by (simp_all add: wellFormed_def)
  have m1: "MoveToNextPhase ?v = Some ?u"
    using MoveToNextPhase_interior[of ?v] r v by simp
  have c: "CheckForPhaseTransition w = MoveToNextPhase ?u"
    using assms(4,5) CheckForPhaseTransition_rules[OF assms(2,3)] m1 by simp
  show ?thesis
  proof (cases "ActivePhase w < NUM_PHASES")
    case True
    then have "MoveToNextPhase ?u = Some (enterPhase (ActivePhase ?u + 1) ?u)"
      using MoveToNextPhase_interior[of ?u] r by simp
    with c True show ?thesis by (simp add: add.assoc)
  next
    case False
    with r have e: "ActivePhase w = NUM_PHASES" by simp
    then have "MoveToNextPhase ?u = End False ?u"
      using MoveToNextPhase_cooling[of ?u] by simp
    with c False e show ?thesis by simp
  qed
qed

section \<open>The heater cycle\<close>

lemma mask_bit:
  assumes "k \<le> 7"
  shows "((p::int) AND drop_bit k 128 \<noteq> 0) = bit p (7 - k)"
proof -
  have "drop_bit k (128::int) = drop_bit k (2 ^ 7)" by simp
  also have "\<dots> = 2 ^ (7 - k)" using assms by (simp only: drop_bit_exp_eq) simp
  finally show ?thesis by (simp add: and_exp_eq_0_iff_not_bit)
qed

lemma heater_writes:
  "Pins (fold (\<lambda>heaterIx. digitalWrite (HeaterPins ! heaterIx) (f heaterIx)) [0..<NUM_HEATERS] v) =
     (Pins v)(4 := f 0, 5 := f 1, 6 := f 2)"
  "ActiveHeatCycle (fold (\<lambda>heaterIx. digitalWrite (HeaterPins ! heaterIx) (f heaterIx))
      [0..<NUM_HEATERS] v) = ActiveHeatCycle v"
  by (simp_all add: NUM_HEATERS_def HeaterPins_def digitalWrite_def upt_rec numeral_3_eq_3
      numeral_2_eq_2)

lemma AdvanceHeatingCycle_Pins:
  "Pins (AdvanceHeatingCycle w) =
     (let mask = (if IsActive w then drop_bit (nat (ActiveHeatCycle w)) 128 else 0);
          ph = currentPhase w
      in (Pins w)(4 := HeaterPattern ph ! 0 AND mask \<noteq> 0,
                  5 := HeaterPattern ph ! 1 AND mask \<noteq> 0,
                  6 := HeaterPattern ph ! 2 AND mask \<noteq> 0))"
  by (simp add: AdvanceHeatingCycle_def Let_def heater_writes currentPhase_def)

lemma AdvanceHeatingCycle_step:
  "ActiveHeatCycle (AdvanceHeatingCycle w) =
     (if IsActive w then (if ActiveHeatCycle w + 1 > 7 then 0 else ActiveHeatCycle w + 1)
      else ActiveHeatCycle w)"
  by (simp add: AdvanceHeatingCycle_def Let_def heater_writes)

lemma wellFormed_AdvanceHeatingCycle:
  assumes "wellFormed w"
  shows "wellFormed (AdvanceHeatingCycle w)"
  using assms
  by (auto simp: wellFormed_def AdvanceHeatingCycle_def Let_def NUM_HEATERS_def digitalWrite_def
      upt_rec numeral_2_eq_2 numeral_3_eq_3)

section \<open>Profile selection\<close>

lemma AdvanceProfile_SelectedProfile:
  "SelectedProfile (AdvanceProfile silently w) =
     (if asUnsigned (SelectedProfile w + 1) \<ge> NUM_PROFILES then 0 else SelectedProfile w + 1)"
  by (simp add: AdvanceProfile_def Let_def NUM_PHASES_def upt_rec numeral_2_eq_2 numeral_3_eq_3)

lemma AdvanceProfile_PhaseSchedule:
  "PhaseSchedule (AdvanceProfile silently w) =
     (let newProfile = profiles ! nat (SelectedProfile (AdvanceProfile silently w))
      in (PhaseSchedule w)
           [1 := Phases newProfile ! 0, 2 := Phases newProfile ! 1,
            3 := Phases newProfile ! 2, 4 := Phases newProfile ! 3])"
  by (simp add: AdvanceProfile_def Let_def NUM_PHASES_def upt_rec eval_nat_numeral)

lemma AdvanceProfile_other:
  "ActivePhase (AdvanceProfile silently w) = ActivePhase w"
  "ActiveHeatCycle (AdvanceProfile silently w) = ActiveHeatCycle w"
  "Eeprom (AdvanceProfile silently w) =
     (if silently then Eeprom w else word_of_int (SelectedProfile (AdvanceProfile silently w)))"
  by (simp_all add: AdvanceProfile_def Let_def NUM_PHASES_def upt_rec numeral_2_eq_2 numeral_3_eq_3)

lemma selection_step:
  assumes "- 1 \<le> s" and "s < NUM_PROFILES"
  shows "(if asUnsigned (s + 1) \<ge> NUM_PROFILES then 0 else s + 1) = (s + 1) mod NUM_PROFILES"
proof -
  have "s = - 1 \<or> s = 0 \<or> s = 1"
    using assms by (auto simp: NUM_PROFILES_def profiles_def)
  then show ?thesis
    by (auto simp: asUnsigned_def NUM_PROFILES_def profiles_def)
qed

lemma four_slots:
  assumes "length xs = 6"
  shows "take 4 (drop 1 (xs[1 := a, 2 := b, 3 := c, 4 := d])) = [a, b, c, d]"
proof -
  obtain x0 x1 x2 x3 x4 x5 where "xs = [x0, x1, x2, x3, x4, x5]"
    using assms by (auto simp: length_Suc_conv eval_nat_numeral)
  then show ?thesis by simp
qed

lemma profile_phases:
  assumes "0 \<le> s" and "s < NUM_PROFILES"
  shows "[Phases (profiles ! nat s) ! 0, Phases (profiles ! nat s) ! 1,
          Phases (profiles ! nat s) ! 2, Phases (profiles ! nat s) ! 3] = Phases (profiles ! nat s)"
proof -
  have "s = 0 \<or> s = 1" using assms by (auto simp: NUM_PROFILES_def profiles_def)
  then show ?thesis by (auto simp: profiles_def)
qed

lemma wellFormed_AdvanceProfile:
  assumes "wellFormed w"
  shows "wellFormed (AdvanceProfile silently w)"
  using assms
  by (simp add: wellFormed_def AdvanceProfile_PhaseSchedule[of silently w] AdvanceProfile_other
      Let_def NUM_PHASES_def)

lemma wellFormed_restoreProfile:
  assumes "restoreProfile lastProfile w = Some w'" and "wellFormed w"
  shows "wellFormed w'"
  using assms
proof (induction lastProfile w w' rule: restoreProfile.raw_induct[rotated, consumes 1, case_names step])
  case (step restoreProfile lastProfile w w')
  show ?case
  proof (cases "SelectedProfile w = lastProfile")
    case True
    with step.hyps step.prems show ?thesis by simp
  next
    case False
    with step.hyps have "restoreProfile lastProfile (AdvanceProfile True w) = Some w'"
      by simp
    from step.IH[OF this wellFormed_AdvanceProfile[OF step.prems]] show ?thesis .
  qed
qed

lemma wellFormed_cleared_pins:
  assumes "wellFormed w"
  shows "wellFormed (fold (\<lambda>i. digitalWrite (g i) False) xs w)"
  using assms by (induction xs arbitrary: w) (simp_all add: digitalWrite_def wellFormed_def)

lemma wellFormed_setup_ino:
  assumes "setup_ino w = Some w'" and "wellFormed w"
  shows "wellFormed w'"
proof -
  define w2 where "w2 = fold (\<lambda>i. digitalWrite (HeaterPins ! i) False) [0..<NUM_HEATERS]
      (fold (\<lambda>i. digitalWrite i False) [4..<8] w)"
  have w2: "wellFormed w2"
    unfolding w2_def by (intro wellFormed_cleared_pins assms(2))
  from assms(1) obtain lastProfile w3 where "restoreProfile lastProfile w2 = Some w3"
    and r: "ResetState w3 = Some w'"
    unfolding setup_ino_def Let_def w2_def[symmetric] by (auto split: bind_splits)
  from wellFormed_restoreProfile[OF this(1) w2] r show ?thesis
    by (rule wellFormed_routines(3))
qed

section \<open>Runs that never return\<close>

lemma persistentFault_step:
  assumes "run r w = Some w'" and "persistentFault w"
  shows "\<exists>phase. r = TransitionToPhase_call phase"
  using assms
proof (induction r w w' rule: run.raw_induct[rotated, consumes 1, case_names step])
  case (step run r w w')
  show ?case
  proof (cases r)
    case CaptureTemperatureSample_call
    have f: "isFaultCode w (Thermocouple w (ThermocoupleReads w))"
      and d: "Thermocouple w (ThermocoupleReads w) \<noteq> TemperatureC w"
      using step.prems by (auto simp: persistentFault_def)
    have p: "persistentFault (w\<lparr>ThermocoupleReads := Suc (ThermocoupleReads w), IsFaulted := True\<rparr>)"
      using step.prems by (auto simp: persistentFault_def isFaultCode_def)
    from step.hyps CaptureTemperatureSample_call f d
    obtain w2 where "run (End_call False)
        (w\<lparr>ThermocoupleReads := Suc (ThermocoupleReads w), IsFaulted := True\<rparr>) = Some w2"
      by (auto simp: readThermocouple_def isFaultCode_def split: if_splits bind_splits)
    from step.IH[OF this p] show ?thesis by simp
  next
    case (End_call u)
    define w3 where "w3 =
      (let (printed, w1) = millis w; w2 = w1\<lparr>PeakTemperatureC := 0\<rparr>; (now, w3) = millis w2
       in w3\<lparr>ActiveSince := now\<rparr>)"
    have p: "persistentFault w3"
      using step.prems by (auto simp: w3_def persistentFault_def isFaultCode_def millis_def)
    from step.hyps End_call have "run ResetState_call w3 = Some w'"
      by (simp add: w3_def split: prod.splits)
    from step.IH[OF this p] show ?thesis by simp
  next
    case ResetState_call
    from step.hyps ResetState_call
    obtain w1 where "run CaptureTemperatureSample_call w = Some w1"
      by (auto split: bind_splits)
    from step.IH[OF this step.prems] show ?thesis by simp
  next
    case (TransitionToPhase_call phase)
    then show ?thesis by simp
  qed
qed

lemma persistentFault_diverges:
  assumes "persistentFault w"
  shows "CaptureTemperatureSample w = None" and "End u w = None" and "ResetState w = None"
proof -
  have "run r w = None" if "\<And>phase. r \<noteq> TransitionToPhase_call phase" for r
  proof (cases "run r w")
    case (Some w')
    from persistentFault_step[OF Some assms] that show ?thesis by blast
  qed simp
  then show "CaptureTemperatureSample w = None" and "End u w = None" and "ResetState w = None"
    by (simp_all add: CaptureTemperatureSample_def End_def ResetState_def)
qed

lemma restoreProfile_stuck:
  assumes "restoreProfile lastProfile w = Some w'"
    and "- 1 \<le> SelectedProfile w" and "SelectedProfile w < NUM_PROFILES"
  shows "lastProfile < NUM_PROFILES"
  using assms
proof (induction lastProfile w w' rule: restoreProfile.raw_induct[rotated, consumes 1, case_names step])
  case (step restoreProfile lastProfile w w')
  show ?case
  proof (cases "SelectedProfile w = lastProfile")
    case True
    with step.prems show ?thesis by simp
  next
    case False
    with step.hyps have r: "restoreProfile lastProfile (AdvanceProfile True w) = Some w'"
      by simp
    have "- 1 \<le> SelectedProfile (AdvanceProfile True w)"
      and "SelectedProfile (AdvanceProfile True w) < NUM_PROFILES"
      using step.prems selection_step[of "SelectedProfile w"]
      by (simp_all add: AdvanceProfile_SelectedProfile NUM_PROFILES_def profiles_def)
    from step.IH[OF r this] show ?thesis .
  qed
qed

lemma restoreProfile_outside:
  assumes "- 1 \<le> SelectedProfile w" and "SelectedProfile w < NUM_PROFILES"
    and "NUM_PROFILES \<le> lastProfile"
  shows "restoreProfile lastProfile w = None"
proof (cases "restoreProfile lastProfile w")
  case (Some w')
  from restoreProfile_stuck[OF Some assms(1,2)] assms(3) show ?thesis by simp
qed simp

lemma restoreProfile_unset:
  assumes "SelectedProfile w = - 1" and "lastProfile = 0 \<or> lastProfile = 1"
  shows "\<exists>w'. restoreProfile lastProfile w = Some w' \<and> SelectedProfile w' = lastProfile"
proof -
  let ?a = "AdvanceProfile True w"
  have a: "SelectedProfile ?a = 0"
    using assms(1) by (simp add: AdvanceProfile_SelectedProfile asUnsigned_def NUM_PROFILES_def profiles_def)
  have b: "SelectedProfile (AdvanceProfile True ?a) = 1"
    using a by (simp add: AdvanceProfile_SelectedProfile asUnsigned_def NUM_PROFILES_def profiles_def)
  from assms(2) show ?thesis
  proof
    assume l: "lastProfile = 0"
    then have "restoreProfile lastProfile w = Some ?a"
      using assms(1) a
      by (subst restoreProfile.simps, simp, subst restoreProfile.simps, simp)
    with a l show ?thesis by simp
  next
    assume l: "lastProfile = 1"
    then have "restoreProfile lastProfile w = Some (AdvanceProfile True ?a)"
      using assms(1) a b
      by (subst restoreProfile.simps, simp, subst restoreProfile.simps, simp,
          subst restoreProfile.simps, simp)
    with b l show ?thesis by simp
  qed
qed

lemma cleared_pins_fields:
  "SelectedProfile (fold (\<lambda>i. digitalWrite (g i) False) xs w) = SelectedProfile w"
  "Eeprom (fold (\<lambda>i. digitalWrite (g i) False) xs w) = Eeprom w"
  by (induction xs arbitrary: w) (simp_all add: digitalWrite_def)

lemma setup_ino_outside:
  assumes "SelectedProfile w = - 1" and "uint (Eeprom w) \<noteq> 255"
    and "NUM_PROFILES \<le> uint (Eeprom w)"
  shows "setup_ino w = None"
proof -
  define w2 where "w2 = fold (\<lambda>i. digitalWrite (HeaterPins ! i) False) [0..<NUM_HEATERS]
      (fold (\<lambda>i. digitalWrite i False) [4..<8] w)"
  have f: "SelectedProfile w2 = - 1" "Eeprom w2 = Eeprom w"
    using assms(1) unfolding w2_def by (simp_all only: cleared_pins_fields)
  have "restoreProfile (uint (Eeprom w)) w2 = None"
    using restoreProfile_outside[of w2 "uint (Eeprom w)"] f assms(3)
    by (simp add: NUM_PROFILES_def profiles_def)
  then show ?thesis
    using assms(2) f unfolding setup_ino_def Let_def w2_def[symmetric] by simp
qed

text \<open>With the thermocouple disconnected at power-on, \<^verbatim>\<open>setup\<close> itself never returns.\<close>

lemma AdvanceProfile_sensor:
  "Thermocouple (AdvanceProfile silently w) = Thermocouple w"
  "ThermocoupleReads (AdvanceProfile silently w) = ThermocoupleReads w"
  "TemperatureC (AdvanceProfile silently w) = TemperatureC w"
  "FAULT_OPEN (AdvanceProfile silently w) = FAULT_OPEN w"
  "FAULT_SHORT_GND (AdvanceProfile silently w) = FAULT_SHORT_GND w"
  "FAULT_SHORT_VCC (AdvanceProfile silently w) = FAULT_SHORT_VCC w"
  by (simp_all add: AdvanceProfile_def Let_def NUM_PHASES_def upt_rec numeral_2_eq_2 numeral_3_eq_3)

lemma cleared_pins_sensor:
  "Thermocouple (fold (\<lambda>i. digitalWrite (g i) False) xs w) = Thermocouple w"
  "ThermocoupleReads (fold (\<lambda>i. digitalWrite (g i) False) xs w) = ThermocoupleReads w"
  "TemperatureC (fold (\<lambda>i. digitalWrite (g i) False) xs w) = TemperatureC w"
  "FAULT_OPEN (fold (\<lambda>i. digitalWrite (g i) False) xs w) = FAULT_OPEN w"
  "FAULT_SHORT_GND (fold (\<lambda>i. digitalWrite (g i) False) xs w) = FAULT_SHORT_GND w"
  "FAULT_SHORT_VCC (fold (\<lambda>i. digitalWrite (g i) False) xs w) = FAULT_SHORT_VCC w"
  by (induction xs arbitrary: w) (simp_all add: digitalWrite_def)

lemma setup_ino_open_circuit:
  "setup_ino (powerOn (\<lambda>_. 10000) clock 255) = None"
proof -
  let ?w = "powerOn (\<lambda>_. 10000) clock 255"
  define w2 where "w2 = fold (\<lambda>i. digitalWrite (HeaterPins ! i) False) [0..<NUM_HEATERS]
      (fold (\<lambda>i. digitalWrite i False) [4..<8] ?w)"
  have p0: "persistentFault ?w" "SelectedProfile ?w = - 1" "uint (Eeprom ?w) = 255"
    by (simp_all add: persistentFault_def isFaultCode_def powerOn_def currentState_def
        OvenState.defs Board.defs)
  have f: "SelectedProfile w2 = - 1" "Eeprom w2 = Eeprom ?w"
    using p0(2) unfolding w2_def by (simp_all only: cleared_pins_fields)
  have p2: "persistentFault w2"
    using p0(1) unfolding w2_def persistentFault_def isFaultCode_def
    by (simp only: cleared_pins_sensor)
  have r: "restoreProfile 0 w2 = Some (AdvanceProfile True w2)"
    using f(1)
    by (subst restoreProfile.simps, simp, subst restoreProfile.simps,
        simp add: AdvanceProfile_SelectedProfile asUnsigned_def NUM_PROFILES_def profiles_def)
  have "persistentFault (AdvanceProfile True w2)"
    using p2 unfolding persistentFault_def isFaultCode_def by (simp only: AdvanceProfile_sensor)
  then have "ResetState (AdvanceProfile True w2) = None"
    by (rule persistentFault_diverges(3))
  with r show ?thesis
    using p0(3) f(2) unfolding setup_ino_def Let_def w2_def[symmetric]
    by (simp add: DEFAULT_PROFILE_def)
qed

section \<open>Facts about the example boards\<close>

lemmas bench_simps =
  bench_def powerOn_def currentState_def OvenState.defs Board.defs profiles_def mkPhase_def
  idlePhase_def coolingPhase_def MAX_START_TEMP_def NUM_PHASES_def NUM_HEATERS_def

lemmas board_simps =
  bench_simps soaking_def hold_def openCircuit_def faultStored_def lastDutyStep_def cooled_def hotOven_def
  overdue_def coolingHot_def coolingOpen_def glitch_def elapsedSeconds_def
  wellFormed_def currentPhase_def timeInPhase_def maxDurationExceeded_def thresholdRuleFires_def
  crossed_def millis_def secondsSince_def nextReading_def readThermocouple_def isFaultCode_def

lemma soaking_facts:
  "wellFormed (soaking now t)" "IsActive (soaking now t)" "ActivePhase (soaking now t) = 2"
  "currentPhase (soaking now t) =
     mkPhase ''Soak'' 205 RISE 30 120 30 [0b01000100, 0b10101011, 0b00010000] False"
  "TemperatureC (soaking now t) = t"
  "timeInPhase (soaking now t) = sint (ucast (now div 1000) :: 16 word)"
  by (simp_all add: board_simps)

section \<open>The elapsed seconds\<close>



section \<open>The end of a run\<close>

text \<open>
  \<^verbatim>\<open>End\<close> prints, resets the peak, sets \<open>ActiveSince\<close> to the clock and calls
  \<^verbatim>\<open>ResetState\<close>, which samples the temperature. With a reading that is not a fault
  code the state is inactive in Idle afterwards only when the reading is at most
  \<^verbatim>\<open>MAX_START_TEMP\<close>; above, it is active in Cooling.
\<close>

lemma afterSample_more:
  "ActiveSince (afterSample w) = ActiveSince w"
  "MillisReads (afterSample w) = MillisReads w"
  "PeakTemperatureC (afterSample w) =
     (if nextReading w = TemperatureC w then PeakTemperatureC w
      else max (PeakTemperatureC w) (nextReading w))"
  by (auto simp: afterSample_def nextReading_def readThermocouple_def Let_def)

lemma ResetState_keeps_more:
  assumes "CaptureTemperatureSample w = Some w1"
  shows "\<exists>w'. ResetState w = Some w' \<and> IsFaulted w' = IsFaulted w1 \<and>
           ThermocoupleReads w' = ThermocoupleReads w1 \<and> ActiveSince w' = ActiveSince w1 \<and>
           PeakTemperatureC w' = PeakTemperatureC w1 \<and> TemperatureC w' = TemperatureC w1 \<and>
           (if TemperatureC w1 > real_of_int MAX_START_TEMP
            then IsActive w' \<and> ActivePhase w' = NUM_PHASES + 1
            else \<not> IsActive w' \<and> ActivePhase w' = 0)"
proof -
  have a: "TransitionToPhase p v = Some v \<and> ActivePhase v = p \<or>
           TransitionToPhase p v = Some (enterPhase p v)"
    if "p \<le> NUM_PHASES + 1" for p v
    using that TransitionToPhase_same[of v] TransitionToPhase_within[of p v] by auto
  show ?thesis
  proof (cases "TemperatureC w1 > real_of_int MAX_START_TEMP")
    case True
    with assms a[of "NUM_PHASES + 1" "w1\<lparr>IsActive := True\<rparr>"] show ?thesis
      by (auto simp: ResetState_unfold)
  next
    case False
    with assms a[of 0 w1] show ?thesis
      by (auto simp: ResetState_unfold NUM_PHASES_def)
  qed
qed

lemma End_effects:
  assumes "\<not> isFaultCode w (nextReading w)"
  shows "\<exists>w'. End u w = Some w' \<and> (IsFaulted w' \<longrightarrow> IsFaulted w) \<and>
           TemperatureC w' = nextReading w \<and>
           ThermocoupleReads w' = Suc (ThermocoupleReads w) \<and>
           ActiveSince w' = Millis w (Suc (MillisReads w)) \<and>
           PeakTemperatureC w' =
             (if nextReading w = TemperatureC w then 0 else max 0 (nextReading w)) \<and>
           (if nextReading w > real_of_int MAX_START_TEMP
            then IsActive w' \<and> ActivePhase w' = NUM_PHASES + 1
            else \<not> IsActive w' \<and> ActivePhase w' = 0)"
proof -
  define w3 where "w3 =
    (let (printed, w1) = millis w; w2 = w1\<lparr>PeakTemperatureC := 0\<rparr>; (now, w3) = millis w2
     in w3\<lparr>ActiveSince := now\<rparr>)"
  have e: "End u w = ResetState w3"
    by (simp add: End_unfold w3_def split: prod.splits)
  have n: "nextReading w3 = nextReading w" "isFaultCode w3 = isFaultCode w"
    "IsFaulted w3 = IsFaulted w" "TemperatureC w3 = TemperatureC w"
    "ThermocoupleReads w3 = ThermocoupleReads w" "PeakTemperatureC w3 = 0"
    "ActiveSince w3 = Millis w (Suc (MillisReads w))"
    by (simp_all add: w3_def millis_def nextReading_def readThermocouple_def isFaultCode_def fun_eq_iff)
  have c: "CaptureTemperatureSample w3 = Some (afterSample w3)"
    using CaptureTemperatureSample_valid[of w3] assms n by simp
  from ResetState_keeps_more[OF c] obtain w' where r: "ResetState w3 = Some w'"
    and f: "IsFaulted w' = IsFaulted (afterSample w3)"
      "ThermocoupleReads w' = ThermocoupleReads (afterSample w3)"
      "ActiveSince w' = ActiveSince (afterSample w3)"
      "PeakTemperatureC w' = PeakTemperatureC (afterSample w3)"
      "TemperatureC w' = TemperatureC (afterSample w3)"
      "(if TemperatureC (afterSample w3) > real_of_int MAX_START_TEMP
        then IsActive w' \<and> ActivePhase w' = NUM_PHASES + 1
        else \<not> IsActive w' \<and> ActivePhase w' = 0)"
    by blast
  have "End u w = Some w'" using e r by simp
  moreover have "IsFaulted w' \<longrightarrow> IsFaulted w" using f(1) n by simp
  moreover have "TemperatureC w' = nextReading w" using f(5) n by simp
  moreover have "ThermocoupleReads w' = Suc (ThermocoupleReads w)" using f(2) n by simp
  moreover have "ActiveSince w' = Millis w (Suc (MillisReads w))"
    using f(3) n by (simp add: afterSample_more)
  moreover have "PeakTemperatureC w' =
      (if nextReading w = TemperatureC w then 0 else max 0 (nextReading w))"
    using f(4) n by (simp add: afterSample_more)
  moreover have "(if nextReading w > real_of_int MAX_START_TEMP
            then IsActive w' \<and> ActivePhase w' = NUM_PHASES + 1
            else \<not> IsActive w' \<and> ActivePhase w' = 0)"
    using f(6) n by simp
  ultimately show ?thesis by blast
qed


text \<open>
  One fault reading followed by valid ones: the nested sampling reads the sensor a second
  time, and the fault code is what the outer call stores.
\<close>

lemma glitch_run:
  "\<exists>w'. ResetState glitch = Some w' \<and> ThermocoupleReads w' = 2 \<and> TemperatureC w' = 10000 \<and>
     IsFaulted w' \<and> IsActive w' \<and> ActivePhase w' = 5"
proof -
  define g1 where "g1 = glitch\<lparr>ThermocoupleReads := 1, IsFaulted := True\<rparr>"
  define g3 where "g3 =
    (let (printed, w1) = millis g1; w2 = w1\<lparr>PeakTemperatureC := 0\<rparr>; (now, w3) = millis w2
     in w3\<lparr>ActiveSince := now\<rparr>)"
  define g4 where "g4 = (afterSample g3)\<lparr>PeakTemperatureC := 10000, TemperatureC := 10000\<rparr>"
  have a: "isFaultCode glitch (nextReading glitch)" "nextReading glitch \<noteq> TemperatureC glitch"
    "nextReading glitch = 10000" "ThermocoupleReads glitch = 0"
    by (simp_all add: board_simps)
  have e: "End False g1 = ResetState g3"
    by (simp add: End_unfold g3_def split: prod.splits)
  have b: "\<not> isFaultCode g3 (nextReading g3)" "nextReading g3 = TemperatureC g3"
    "ThermocoupleReads g3 = 1" "IsFaulted g3" "ActivePhase g3 = 0" "\<not> IsActive g3"
    "TemperatureC g3 = 25" "PeakTemperatureC g3 = 0"
    by (simp_all add: g3_def g1_def board_simps)
  have c: "CaptureTemperatureSample g3 = Some (afterSample g3)"
    using CaptureTemperatureSample_valid[OF b(1)] .
  have s: "ThermocoupleReads (afterSample g3) = 2" "IsFaulted (afterSample g3)"
    "ActivePhase (afterSample g3) = 0" "\<not> IsActive (afterSample g3)"
    "TemperatureC (afterSample g3) = 25" "PeakTemperatureC (afterSample g3) = 0"
    using b by (simp_all add: afterSample_more)
  have r: "ResetState g3 = Some (afterSample g3)"
    using TransitionToPhase_same[of "afterSample g3"] s
    by (simp add: ResetState_unfold c MAX_START_TEMP_def)
  have "CaptureTemperatureSample glitch =
      End False g1 \<bind>
        (\<lambda>w2. Some ((if nextReading glitch > PeakTemperatureC w2
                      then w2\<lparr>PeakTemperatureC := nextReading glitch\<rparr> else w2)
                     \<lparr>TemperatureC := nextReading glitch\<rparr>))"
    using CaptureTemperatureSample_fault[OF a(1,2)] by (simp add: g1_def a(4))
  then have cap: "CaptureTemperatureSample glitch = Some g4"
    using e r s(6) by (simp add: a(3) g4_def)
  have g: "ThermocoupleReads g4 = 2" "IsFaulted g4" "ActivePhase g4 = 0" "TemperatureC g4 = 10000"
    using s by (simp_all add: g4_def)
  have "ResetState glitch = TransitionToPhase 5 (g4\<lparr>IsActive := True\<rparr>)"
    using g by (simp add: ResetState_unfold cap MAX_START_TEMP_def NUM_PHASES_def)
  also have "\<dots> = Some (enterPhase 5 (g4\<lparr>IsActive := True\<rparr>))"
    using TransitionToPhase_within[of 5 "g4\<lparr>IsActive := True\<rparr>"] g
    by (simp add: NUM_PHASES_def)
  finally show ?thesis using g by simp
qed

section \<open>C1: one transition for each evaluation\<close>

text \<open>
  C1. For every evaluation of \<^verbatim>\<open>CheckForPhaseTransition\<close> on an active state outside
  Idle, at most one phase transition occurs and the phase index advances by exactly one.

  The sketch does not keep this. The maximum-duration test at the end of the check reads
  the local copies of the phase and of the elapsed time taken when the check started, and
  nothing returns after the threshold rule has advanced. When both rules hold,
  \<^verbatim>\<open>MoveToNextPhase\<close> runs twice (lemma \<open>double_fire\<close>). Here the lead-free run is in
  Soak (index 2), 120 s after entry, and the stored temperature has just reached 205: the
  check leaves the run in Reflow (index 4), and Liquidus is skipped.
\<close>

theorem CheckForPhaseTransition_double_advance:
  "wellFormed (soaking 120000 205) \<and> IsActive (soaking 120000 205) \<and>
   ActivePhase (soaking 120000 205) = 2 \<and>
   map_option ActivePhase (CheckForPhaseTransition (soaking 120000 205)) = Some 4"
proof -
  have f: "thresholdRuleFires (soaking 120000 205)" "maxDurationExceeded (soaking 120000 205)"
    by (simp_all add: thresholdRuleFires_def maxDurationExceeded_def crossed_def soaking_facts
        mkPhase_def)
  have "CheckForPhaseTransition (soaking 120000 205) =
      Some (enterPhase 4 (enterPhase 3 (snd (millis (soaking 120000 205)))))"
    using double_fire[OF soaking_facts(1,2) _ f] by (simp add: soaking_facts NUM_PHASES_def)
  then show ?thesis by (simp add: soaking_facts)
qed

section \<open>C2: threshold and minimum duration\<close>




section \<open>C3: maximum duration\<close>

text \<open>
  What the maximum-duration test does. For a phase with a positive maximum, once the
  elapsed time has reached the maximum the last test of the check calls
  \<^verbatim>\<open>MoveToNextPhase\<close>, also when the threshold was never crossed. Cooling has no
  maximum, so the phase is one before Cooling. When the threshold rule has not fired on
  the same evaluation, the result is one advance: the next phase is entered. In every
  case the check returns when the phase is before the last one of the profile or the next
  reading is not a fault code, and whenever it returns, the run has left the phase it was
  in.
\<close>

lemma max_duration_forces_advance:
  assumes "wellFormed w" and "IsActive w" and "ActivePhase w \<noteq> 0"
    and "maxDurationExceeded w"
  shows "ActivePhase w \<le> NUM_PHASES \<and>
         (\<not> thresholdRuleFires w \<longrightarrow> advancedByOne w (CheckForPhaseTransition w)) \<and>
         (ActivePhase w < NUM_PHASES \<or> \<not> isFaultCode w (nextReading w) \<longrightarrow>
            CheckForPhaseTransition w \<noteq> None) \<and>
         (\<forall>w'. CheckForPhaseTransition w = Some w' \<longrightarrow> ActivePhase w' \<noteq> ActivePhase w)"
proof -
  have r: "0 \<le> ActivePhase w" "ActivePhase w \<le> NUM_PHASES"
    using assms(1) cooling_has_no_max[OF assms(1,4)] by (simp_all add: wellFormed_def)
  show ?thesis
  proof (cases "thresholdRuleFires w")
    case False
    then have a: "advancedByOne w (CheckForPhaseTransition w)"
      using single_advance[OF assms(1,2,3)] assms(4) by simp
    have "\<exists>w'. CheckForPhaseTransition w = Some w' \<and> ActivePhase w' = ActivePhase w + 1"
      using a r unfolding advancedByOne_def by (simp split: if_splits) metis
    then obtain w' where s: "CheckForPhaseTransition w = Some w'"
      and p: "ActivePhase w' = ActivePhase w + 1" by blast
    show ?thesis using r False a s p by simp
  next
    case True
    note d = double_fire[OF assms(1,2,3) True assms(4)]
    show ?thesis
    proof (cases "ActivePhase w < NUM_PHASES")
      case lt: True
      with d r True show ?thesis by simp
    next
      case False
      with r have e: "ActivePhase w = NUM_PHASES" by simp
      let ?u = "enterPhase (NUM_PHASES + 1) (snd (millis w))"
      have left: "ActivePhase w' \<noteq> ActivePhase w" if "CheckForPhaseTransition w = Some w'" for w'
        using End_phase_after[of False ?u w'] that d e by (auto simp: NUM_PHASES_def)
      have n: "nextReading ?u = nextReading w" "isFaultCode ?u = isFaultCode w"
        by (simp_all add: nextReading_def readThermocouple_def isFaultCode_def millis_def fun_eq_iff)
      have returns: "CheckForPhaseTransition w \<noteq> None" if "\<not> isFaultCode w (nextReading w)"
        using End_valid[of ?u False] that n d e by auto
      show ?thesis using r True e left returns by simp
    qed
  qed
qed

text \<open>
  In Soak, 120 s after entry and the oven only at 180 degrees: the threshold is not
  crossed, and the run moves to index 3.
\<close>

lemma max_duration_forces_advance_example:
  "wellFormed (soaking 120000 180) \<and> IsActive (soaking 120000 180) \<and>
   ActivePhase (soaking 120000 180) = 2 \<and> maxDurationExceeded (soaking 120000 180) \<and>
   \<not> crossed (currentPhase (soaking 120000 180)) (TemperatureC (soaking 120000 180)) \<and>
   map_option ActivePhase (CheckForPhaseTransition (soaking 120000 180)) = Some 3"
proof -
  have a: "maxDurationExceeded (soaking 120000 180)"
    "\<not> crossed (currentPhase (soaking 120000 180)) (TemperatureC (soaking 120000 180))"
    "\<not> thresholdRuleFires (soaking 120000 180)"
    by (simp_all add: crossed_def maxDurationExceeded_def thresholdRuleFires_def soaking_facts
        mkPhase_def)
  from max_duration_forces_advance[OF soaking_facts(1,2) _ a(1)] a(3)
  have "advancedByOne (soaking 120000 180) (CheckForPhaseTransition (soaking 120000 180))"
    by (simp add: soaking_facts)
  then have "\<exists>w'. CheckForPhaseTransition (soaking 120000 180) = Some w' \<and> ActivePhase w' = 3"
    unfolding advancedByOne_def by (simp add: soaking_facts NUM_PHASES_def) metis
  then have "map_option ActivePhase (CheckForPhaseTransition (soaking 120000 180)) = Some 3"
    by auto
  then show ?thesis using a by (simp add: soaking_facts)
qed

text \<open>
  C3. For every phase with a positive maximum duration, when the elapsed time reaches the
  maximum the check force-advances to the next phase, even if the exit threshold was
  never crossed, and independently of the threshold and minimum-duration rule.

  The sketch does not keep this when the threshold rule fires on the same evaluation.
  The maximum-duration test then runs after the threshold rule has already advanced,
  still on the local copies of the phase and of the elapsed time taken when the check
  started, and it advances a second time (lemma \<open>double_fire\<close>): the run does not land
  in the next phase but in the one after it. Here the lead-free run is in Soak (index 2,
  maximum 120 s), 120 s after entry, with 205.25 degrees stored: the check leaves the run in
  Reflow (index 4), not in Liquidus (index 3). This is the defect of C1, seen from the
  maximum-duration rule.
\<close>

theorem CheckForPhaseTransition_max_duration_skips_phase:
  "wellFormed (soaking 120000 205.25) \<and> IsActive (soaking 120000 205.25) \<and>
   ActivePhase (soaking 120000 205.25) = 2 \<and>
   MaxDurationS (currentPhase (soaking 120000 205.25)) = 120 \<and>
   elapsedSeconds (soaking 120000 205.25) = 120 \<and>
   timeInPhase (soaking 120000 205.25) = 120 \<and>
   map_option ActivePhase (CheckForPhaseTransition (soaking 120000 205.25)) = Some 4"
proof -
  have f: "thresholdRuleFires (soaking 120000 205.25)" "maxDurationExceeded (soaking 120000 205.25)"
    "MaxDurationS (currentPhase (soaking 120000 205.25)) = 120"
    "elapsedSeconds (soaking 120000 205.25) = 120"
    "timeInPhase (soaking 120000 205.25) = 120"
    by (simp_all add: board_simps)
  have "CheckForPhaseTransition (soaking 120000 205.25) =
      Some (enterPhase 4 (enterPhase 3 (snd (millis (soaking 120000 205.25)))))"
    using double_fire[OF soaking_facts(1,2) _ f(1,2)] by (simp add: soaking_facts NUM_PHASES_def)
  then show ?thesis using f by (simp add: soaking_facts)
qed

section \<open>C4: thermocouple faults\<close>

text \<open>
  C4. A fault reading marks the state faulted and ends the run through
  \<^verbatim>\<open>End(false)\<close>, and the fault path returns, so that sampling is tried again at the
  next cadence.

  On a fault \<^verbatim>\<open>CaptureTemperatureSample\<close> does set \<open>IsFaulted\<close> and call
  \<^verbatim>\<open>End(false)\<close> (lemma \<open>CaptureTemperatureSample_fault\<close>). But \<^verbatim>\<open>End\<close> calls
  \<^verbatim>\<open>ResetState\<close>, which samples again before the outer call has stored the reading: the
  nested call compares the new reading with the old stored temperature, finds a fault
  again, and calls \<^verbatim>\<open>End\<close> again. While the sensor keeps delivering fault codes this
  never returns (lemma \<open>persistentFault_diverges\<close>). Here the thermocouple is
  disconnected and the stored temperature is 25.
\<close>

theorem CaptureTemperatureSample_open_circuit_diverges:
  "isFaultCode openCircuit (nextReading openCircuit) \<and>
   nextReading openCircuit \<noteq> TemperatureC openCircuit \<and>
   CaptureTemperatureSample openCircuit = None"
proof -
  have "persistentFault openCircuit"
    by (simp add: persistentFault_def board_simps)
  from persistentFault_diverges(1)[OF this] show ?thesis
    by (simp add: board_simps)
qed

section \<open>C5: restoring the stored profile\<close>

text \<open>
  C5. Startup restores the stored selection for every value of the stored byte: 255
  falls back to the default profile, and a byte outside the catalog is not fatal.

  \<^verbatim>\<open>setup\<close> maps 255 to the default and then steps \<^verbatim>\<open>AdvanceProfile\<close> until the
  selection equals the stored value. For 0 and 1 the loop ends there (lemma
  \<open>restoreProfile_unset\<close>). The selection only ever takes the values 0 and 1, so for a
  stored byte from 2 to 254 the loop never ends (lemma \<open>setup_ino_outside\<close>). Here the
  byte is 2.
\<close>

theorem setup_unknown_profile_diverges:
  "uint (Eeprom (powerOn sensor clock 2)) = 2 \<and> setup_ino (powerOn sensor clock 2) = None"
proof -
  have "SelectedProfile (powerOn sensor clock 2) = - 1"
    and e: "uint (Eeprom (powerOn sensor clock 2)) = 2"
    by (simp_all add: powerOn_def currentState_def OvenState.defs Board.defs)
  from setup_ino_outside[OF this(1)] e show ?thesis
    by (simp add: NUM_PROFILES_def profiles_def)
qed

section \<open>C6: the heater cycle driver\<close>

text \<open>
  C6. While a run is active, \<^verbatim>\<open>AdvanceHeatingCycle\<close> drives heater \<open>h\<close> high exactly
  when bit \<open>7 - dutyStep\<close> of the active phase's pattern for \<open>h\<close> is set, and then moves
  the duty step on by one, from 7 back to 0. While no run is active it drives every
  heater low and leaves the duty step as it is.
\<close>

theorem AdvanceHeatingCycle_duty:
  assumes "wellFormed w" and "h < NUM_HEATERS"
  shows "if IsActive w
         then Pins (AdvanceHeatingCycle w) (HeaterPins ! h) =
                bit (HeaterPattern (currentPhase w) ! h) (7 - nat (ActiveHeatCycle w)) \<and>
              ActiveHeatCycle (AdvanceHeatingCycle w) =
                (if ActiveHeatCycle w = 7 then 0 else ActiveHeatCycle w + 1)
         else \<not> Pins (AdvanceHeatingCycle w) (HeaterPins ! h) \<and>
              ActiveHeatCycle (AdvanceHeatingCycle w) = ActiveHeatCycle w"
proof -
  have k: "nat (ActiveHeatCycle w) \<le> 7" using assms(1) unfolding wellFormed_def by linarith
  have c: "ActiveHeatCycle w \<le> 7" using assms(1) unfolding wellFormed_def by linarith
  have h: "h = 0 \<or> h = 1 \<or> h = 2" using assms(2) by (auto simp: NUM_HEATERS_def)
  have pin: "Pins (AdvanceHeatingCycle w) (HeaterPins ! h) =
      (HeaterPattern (currentPhase w) ! h AND
         (if IsActive w then drop_bit (nat (ActiveHeatCycle w)) 128 else 0) \<noteq> 0)"
    using h by (auto simp: AdvanceHeatingCycle_Pins HeaterPins_def Let_def)
  show ?thesis
  proof (cases "IsActive w")
    case True
    then show ?thesis
      using pin mask_bit[OF k] c by (simp add: AdvanceHeatingCycle_step)
  next
    case False
    then show ?thesis
      using pin by (simp add: AdvanceHeatingCycle_step)
  qed
qed

text \<open>
  Pre-heat at duty step 7: bit 0 of the upper pattern \<open>0b11001101\<close> is set and bit 0 of the
  lower pattern \<open>0b10111110\<close> is not; the step wraps to 0. On the idle bench the upper
  heater is driven low and the step stays 0.
\<close>

theorem AdvanceHeatingCycle_duty_witness:
  "wellFormed lastDutyStep \<and> IsActive lastDutyStep \<and> ActiveHeatCycle lastDutyStep = 7 \<and>
   Pins (AdvanceHeatingCycle lastDutyStep) (HeaterPins ! 0) \<and>
   \<not> Pins (AdvanceHeatingCycle lastDutyStep) (HeaterPins ! 1) \<and>
   ActiveHeatCycle (AdvanceHeatingCycle lastDutyStep) = 0 \<and>
   wellFormed bench \<and> \<not> IsActive bench \<and>
   \<not> Pins (AdvanceHeatingCycle bench) (HeaterPins ! 0) \<and>
   ActiveHeatCycle (AdvanceHeatingCycle bench) = ActiveHeatCycle bench"
proof -
  have w: "wellFormed lastDutyStep" "wellFormed bench" "(0::nat) < NUM_HEATERS" "(1::nat) < NUM_HEATERS"
    by (simp_all add: board_simps)
  have f: "IsActive lastDutyStep" "ActiveHeatCycle lastDutyStep = 7" "\<not> IsActive bench"
    "HeaterPattern (currentPhase lastDutyStep) = [0b11001101, 0b10111110, 0b01010011]"
    by (simp_all add: board_simps)
  show ?thesis
    using AdvanceHeatingCycle_duty[OF w(1,3)] AdvanceHeatingCycle_duty[OF w(1,4)]
      AdvanceHeatingCycle_duty[OF w(2,3)] w f
    by (simp add: bit_numeral_simps)
qed

section \<open>C7: advancing the profile\<close>

text \<open>
  C7. \<^verbatim>\<open>AdvanceProfile\<close> moves the selection on by one modulo the number of profiles.
  After the call the slots \<open>1..NUM_PHASES\<close> of the schedule are the phases of the selected
  profile, in order, and slot 0 (Idle) and the last slot (Cooling) are as before. From a
  selection within the catalog, as many calls as there are profiles return to it. The
  selection may start at -1, the value before the first call; the first call then
  selects profile 0.
\<close>

theorem AdvanceProfile_cycles:
  assumes "wellFormed w" and "- 1 \<le> SelectedProfile w" and "SelectedProfile w < NUM_PROFILES"
  shows "SelectedProfile (AdvanceProfile silently w) = (SelectedProfile w + 1) mod NUM_PROFILES \<and>
         take (nat NUM_PHASES) (drop 1 (PhaseSchedule (AdvanceProfile silently w))) =
           Phases (profiles ! nat (SelectedProfile (AdvanceProfile silently w))) \<and>
         length (PhaseSchedule (AdvanceProfile silently w)) = length (PhaseSchedule w) \<and>
         PhaseSchedule (AdvanceProfile silently w) ! 0 = PhaseSchedule w ! 0 \<and>
         PhaseSchedule (AdvanceProfile silently w) ! nat (NUM_PHASES + 1) =
           PhaseSchedule w ! nat (NUM_PHASES + 1) \<and>
         (0 \<le> SelectedProfile w \<longrightarrow>
            SelectedProfile ((AdvanceProfile silently ^^ nat NUM_PROFILES) w) = SelectedProfile w)"
proof -
  let ?w' = "AdvanceProfile silently w"
  have len: "length (PhaseSchedule w) = 6"
    using assms(1) by (simp add: wellFormed_def NUM_PHASES_def)
  have sel: "SelectedProfile ?w' = (SelectedProfile w + 1) mod NUM_PROFILES"
    using selection_step[OF assms(2,3)] by (simp add: AdvanceProfile_SelectedProfile)
  have range: "0 \<le> SelectedProfile ?w'" "SelectedProfile ?w' < NUM_PROFILES"
    using sel by (simp_all add: NUM_PROFILES_def profiles_def)
  have interior: "take (nat NUM_PHASES) (drop 1 (PhaseSchedule ?w')) =
      Phases (profiles ! nat (SelectedProfile ?w'))"
    using four_slots[OF len] profile_phases[OF range]
    by (simp add: AdvanceProfile_PhaseSchedule[of silently w] Let_def NUM_PHASES_def)
  have ends: "length (PhaseSchedule ?w') = length (PhaseSchedule w)"
    "PhaseSchedule ?w' ! 0 = PhaseSchedule w ! 0"
    "PhaseSchedule ?w' ! nat (NUM_PHASES + 1) = PhaseSchedule w ! nat (NUM_PHASES + 1)"
    by (simp_all add: AdvanceProfile_PhaseSchedule[of silently w] Let_def NUM_PHASES_def)
  have twice: "SelectedProfile ((AdvanceProfile silently ^^ nat NUM_PROFILES) w) = SelectedProfile w"
    if "0 \<le> SelectedProfile w"
  proof -
    have "SelectedProfile (AdvanceProfile silently ?w') = (SelectedProfile ?w' + 1) mod NUM_PROFILES"
      using selection_step[of "SelectedProfile ?w'"] range
      by (simp add: AdvanceProfile_SelectedProfile)
    moreover have "SelectedProfile w = 0 \<or> SelectedProfile w = 1"
      using that assms(3) by (auto simp: NUM_PROFILES_def profiles_def)
    ultimately show ?thesis
      using sel by (auto simp: NUM_PROFILES_def profiles_def numeral_2_eq_2)
  qed
  show ?thesis using sel interior ends twice by simp
qed

text \<open>From the lead-free profile (index 0) one call selects the leaded profile.\<close>

theorem AdvanceProfile_cycles_witness:
  "wellFormed bench \<and> SelectedProfile bench = 0 \<and>
   SelectedProfile (AdvanceProfile False bench) = 1 \<and>
   take (nat NUM_PHASES) (drop 1 (PhaseSchedule (AdvanceProfile False bench))) =
     Phases (profiles ! 1) \<and>
   PhaseSchedule (AdvanceProfile False bench) ! 0 = idlePhase \<and>
   PhaseSchedule (AdvanceProfile False bench) ! nat (NUM_PHASES + 1) = coolingPhase \<and>
   SelectedProfile ((AdvanceProfile False ^^ nat NUM_PROFILES) bench) = 0"
proof -
  have w: "wellFormed bench" and s: "SelectedProfile bench = 0"
    and n: "NUM_PROFILES = 2"
    by (simp_all add: board_simps NUM_PROFILES_def)
  have e: "PhaseSchedule bench ! 0 = idlePhase"
    "PhaseSchedule bench ! nat (NUM_PHASES + 1) = coolingPhase"
    using w by (simp_all add: wellFormed_def)
  from AdvanceProfile_cycles[OF w, of False] s n e
  show ?thesis using w by simp
qed

section \<open>C8: ResetState\<close>

text \<open>
  What \<^verbatim>\<open>ResetState\<close> does with its call of \<^verbatim>\<open>CaptureTemperatureSample\<close>. When the
  sampling does not return, neither does \<^verbatim>\<open>ResetState\<close>. When it returns, the stored
  temperature is the reading just taken, and \<^verbatim>\<open>ResetState\<close> returns with that
  temperature: above \<^verbatim>\<open>MAX_START_TEMP\<close> the run is active in Cooling (index
  \<open>NUM_PHASES + 1\<close>), otherwise the state is inactive in Idle (index 0). Whenever the
  reading is not a fault code, \<^verbatim>\<open>ResetState\<close> returns and the sensor has been read
  exactly once.
\<close>

lemma ResetState_startup_guard:
  "(case CaptureTemperatureSample w of
      None \<Rightarrow> ResetState w = None
    | Some w1 \<Rightarrow>
        TemperatureC w1 = nextReading w \<and>
        (\<exists>w'. ResetState w = Some w' \<and> TemperatureC w' = TemperatureC w1 \<and>
           (if TemperatureC w1 > real_of_int MAX_START_TEMP
            then IsActive w' \<and> ActivePhase w' = NUM_PHASES + 1
            else \<not> IsActive w' \<and> ActivePhase w' = 0))) \<and>
   (\<not> isFaultCode w (nextReading w) \<longrightarrow>
      (\<exists>w'. ResetState w = Some w' \<and> ThermocoupleReads w' = Suc (ThermocoupleReads w)))"
proof -
  have a: "\<exists>w'. ResetState w = Some w' \<and> ThermocoupleReads w' = Suc (ThermocoupleReads w)"
    if "\<not> isFaultCode w (nextReading w)"
    using ResetState_keeps_fault_flag[OF CaptureTemperatureSample_valid[OF that]] by auto
  show ?thesis
  proof (cases "CaptureTemperatureSample w")
    case None
    with a ResetState_no_sample[OF None] show ?thesis by auto
  next
    case (Some w1)
    with a ResetState_after_sample[OF Some] CaptureTemperatureSample_stores[OF Some]
    show ?thesis by simp
  qed
qed

text \<open>At 25 degrees the bench ends idle; at 180 degrees it ends active in Cooling.\<close>

lemma ResetState_startup_guard_example:
  "\<not> isFaultCode bench (nextReading bench) \<and> nextReading bench = 25 \<and>
   (\<exists>w'. ResetState bench = Some w' \<and> \<not> IsActive w' \<and> ActivePhase w' = 0) \<and>
   \<not> isFaultCode hotOven (nextReading hotOven) \<and> nextReading hotOven = 180 \<and>
   (\<exists>w'. ResetState hotOven = Some w' \<and> IsActive w' \<and> ActivePhase w' = 5)"
proof -
  have b: "\<not> isFaultCode bench (nextReading bench)" "nextReading bench = 25"
    and h: "\<not> isFaultCode hotOven (nextReading hotOven)" "nextReading hotOven = 180"
    by (simp_all add: board_simps)
  have "\<exists>w'. ResetState bench = Some w' \<and> \<not> IsActive w' \<and> ActivePhase w' = 0"
    using ResetState_startup_guard[of bench] b
    by (auto simp: MAX_START_TEMP_def split: option.splits)
  moreover have "\<exists>w'. ResetState hotOven = Some w' \<and> IsActive w' \<and> ActivePhase w' = 5"
    using ResetState_startup_guard[of hotOven] h
    by (auto simp: MAX_START_TEMP_def NUM_PHASES_def split: option.splits)
  ultimately show ?thesis using b h by simp
qed

text \<open>
  C8. \<^verbatim>\<open>ResetState\<close> samples the temperature once and then sets the state: above the
  safe startup threshold active in Cooling, otherwise inactive in Idle.

  The sketch does not keep this when the reading is a fault code. The sampling then calls
  \<^verbatim>\<open>End(false)\<close>, which calls \<^verbatim>\<open>ResetState\<close> again, which samples again: this is the
  defect of C4. With the thermocouple disconnected (board \<open>openCircuit\<close>)
  \<^verbatim>\<open>ResetState\<close> never returns, so it sets nothing. With one fault reading followed by
  25 degrees (board \<open>glitch\<close>) it returns, but the sensor has been read twice, and the
  value the outer call stores and decides on is the fault code 10000 and not a
  temperature: the state is left faulted and active in Cooling, with the oven at 25
  degrees.
\<close>

theorem ResetState_fault_reading:
  "isFaultCode openCircuit (nextReading openCircuit) \<and> ResetState openCircuit = None \<and>
   ThermocoupleReads glitch = 0 \<and> nextReading glitch = 10000 \<and>
   map_option ThermocoupleReads (ResetState glitch) = Some 2 \<and>
   map_option TemperatureC (ResetState glitch) = Some 10000 \<and>
   map_option IsFaulted (ResetState glitch) = Some True \<and>
   map_option IsActive (ResetState glitch) = Some True \<and>
   map_option ActivePhase (ResetState glitch) = Some 5"
proof -
  have "persistentFault openCircuit"
    by (simp add: persistentFault_def board_simps)
  from persistentFault_diverges(3)[OF this]
  have "isFaultCode openCircuit (nextReading openCircuit) \<and> ResetState openCircuit = None"
    by (simp add: board_simps)
  moreover have "ThermocoupleReads glitch = 0" "nextReading glitch = 10000"
    by (simp_all add: board_simps)
  moreover from glitch_run obtain w' where "ResetState glitch = Some w'"
    and "ThermocoupleReads w' = 2" and "TemperatureC w' = 10000"
    and "IsFaulted w'" and "IsActive w'" and "ActivePhase w' = 5"
    by blast
  ultimately show ?thesis by simp
qed

section \<open>C9: a transition beyond Cooling\<close>

text \<open>
  C9, as stated: a request for an index beyond Cooling is not an error or a fault; it
  ends the run, through \<^verbatim>\<open>End\<close>, and does not change the phase index further. A
  request for the current index changes nothing.

  The request is the call \<^verbatim>\<open>End(false)\<close>, but that call does not always end the run.
  \<^verbatim>\<open>End\<close> calls \<^verbatim>\<open>ResetState\<close>, which samples the temperature and keeps the run
  active in Cooling when the oven is above \<^verbatim>\<open>MAX_START_TEMP\<close>. On the board
  \<open>coolingHot\<close> (a run in Cooling, 50 degrees stored, the sensor at 50.25) the request
  for index 6 returns with the run still active in index 5. On the board \<open>coolingOpen\<close>,
  where the thermocouple is disconnected, the same request never returns (see C4).
\<close>

theorem TransitionToPhase_beyond_cooling_stays_active:
  "wellFormed coolingHot \<and> NUM_PHASES + 1 < 6 \<and> ActivePhase coolingHot = 5 \<and>
   \<not> isFaultCode coolingHot (nextReading coolingHot) \<and>
   map_option IsActive (TransitionToPhase 6 coolingHot) = Some True \<and>
   map_option ActivePhase (TransitionToPhase 6 coolingHot) = Some 5 \<and>
   TransitionToPhase 6 coolingOpen = None"
proof -
  have c: "wellFormed coolingHot" "NUM_PHASES + 1 < 6" "ActivePhase coolingHot = 5"
    "\<not> isFaultCode coolingHot (nextReading coolingHot)"
    "nextReading coolingHot > real_of_int MAX_START_TEMP"
    "ActivePhase coolingOpen = 5"
    by (simp_all add: board_simps)
  have e: "TransitionToPhase 6 coolingHot = End False coolingHot"
    "TransitionToPhase 6 coolingOpen = End False coolingOpen"
    using TransitionToPhase_beyond[of 6 coolingHot] TransitionToPhase_beyond[of 6 coolingOpen] c
    by simp_all
  from End_effects[OF c(4), of False] c(5) e(1)
  have "\<exists>w'. TransitionToPhase 6 coolingHot = Some w' \<and> IsActive w' \<and> ActivePhase w' = 5"
    by (auto simp: NUM_PHASES_def)
  then have a: "map_option IsActive (TransitionToPhase 6 coolingHot) = Some True"
    "map_option ActivePhase (TransitionToPhase 6 coolingHot) = Some 5"
    by auto
  have "persistentFault coolingOpen"
    by (simp add: persistentFault_def board_simps)
  from persistentFault_diverges(2)[OF this, of False] e(2)
  have "TransitionToPhase 6 coolingOpen = None" by simp
  with c(1-4) a show ?thesis by simp
qed

text \<open>
  C9, amended. \<^verbatim>\<open>TransitionToPhase\<close> with the index the run is already at changes
  nothing. With an index beyond Cooling (and not the current one) it is exactly
  \<^verbatim>\<open>End(false)\<close>, and nothing is assigned after \<^verbatim>\<open>End\<close> returns: the phase index is
  where \<^verbatim>\<open>End\<close> left it, Idle or Cooling, never the index asked for. It raises no
  fault of its own. When the reading \<^verbatim>\<open>End\<close> takes is not a fault code, the call
  returns, the sensor read once, and then
  \<^item> \<open>IsFaulted\<close> is set only if it was set before;
  \<^item> that reading is the stored temperature, \<open>ActiveSince\<close> is the clock as \<^verbatim>\<open>End\<close>
    read it, and the peak, reset by \<^verbatim>\<open>End\<close>, is 0 or that reading (the reading when
    it is positive and differs from the temperature stored before);
  \<^item> the run is ended, inactive in Idle, when the reading is at most
    \<^verbatim>\<open>MAX_START_TEMP\<close>; when the reading is above, the state is active in Cooling.
\<close>

theorem TransitionToPhase_beyond_cooling:
  "TransitionToPhase (ActivePhase w) w = Some w \<and>
   (phase > NUM_PHASES + 1 \<and> phase \<noteq> ActivePhase w \<longrightarrow>
      TransitionToPhase phase w = End False w \<and>
      (\<forall>w'. TransitionToPhase phase w = Some w' \<longrightarrow>
         ActivePhase w' = 0 \<or> ActivePhase w' = NUM_PHASES + 1) \<and>
      (\<not> isFaultCode w (nextReading w) \<longrightarrow>
         (\<exists>w'. TransitionToPhase phase w = Some w' \<and> (IsFaulted w' \<longrightarrow> IsFaulted w) \<and>
            TemperatureC w' = nextReading w \<and>
            ThermocoupleReads w' = Suc (ThermocoupleReads w) \<and>
            ActiveSince w' = Millis w (Suc (MillisReads w)) \<and>
            PeakTemperatureC w' =
              (if nextReading w = TemperatureC w then 0 else max 0 (nextReading w)) \<and>
            (if nextReading w > real_of_int MAX_START_TEMP
             then IsActive w' \<and> ActivePhase w' = NUM_PHASES + 1
             else \<not> IsActive w' \<and> ActivePhase w' = 0))))"
proof -
  have "TransitionToPhase phase w = End False w \<and>
      (\<forall>w'. TransitionToPhase phase w = Some w' \<longrightarrow>
         ActivePhase w' = 0 \<or> ActivePhase w' = NUM_PHASES + 1) \<and>
      (\<not> isFaultCode w (nextReading w) \<longrightarrow>
         (\<exists>w'. TransitionToPhase phase w = Some w' \<and> (IsFaulted w' \<longrightarrow> IsFaulted w) \<and>
            TemperatureC w' = nextReading w \<and>
            ThermocoupleReads w' = Suc (ThermocoupleReads w) \<and>
            ActiveSince w' = Millis w (Suc (MillisReads w)) \<and>
            PeakTemperatureC w' =
              (if nextReading w = TemperatureC w then 0 else max 0 (nextReading w)) \<and>
            (if nextReading w > real_of_int MAX_START_TEMP
             then IsActive w' \<and> ActivePhase w' = NUM_PHASES + 1
             else \<not> IsActive w' \<and> ActivePhase w' = 0)))"
    if b: "phase > NUM_PHASES + 1" and d: "phase \<noteq> ActivePhase w"
  proof -
    have e: "TransitionToPhase phase w = End False w"
      using TransitionToPhase_beyond[OF d b] .
    show ?thesis using e End_phase_after[of False w] End_effects[of w False] by simp
  qed
  then show ?thesis using TransitionToPhase_same[of w] by blast
qed

text \<open>
  From Cooling, with the oven at 40 degrees, a request for index 6 ends the run: inactive,
  in Idle, 40 degrees stored.
\<close>

theorem TransitionToPhase_beyond_cooling_witness:
  "NUM_PHASES + 1 < 6 \<and> 6 \<noteq> ActivePhase cooled \<and>
   \<not> isFaultCode cooled (nextReading cooled) \<and> nextReading cooled = 40 \<and>
   TransitionToPhase 5 cooled = Some cooled \<and>
   TransitionToPhase 6 cooled = End False cooled \<and>
   (\<exists>w'. TransitionToPhase 6 cooled = Some w' \<and> \<not> IsFaulted w' \<and> \<not> IsActive w' \<and>
      ActivePhase w' = 0 \<and> TemperatureC w' = 40 \<and> PeakTemperatureC w' = 40 \<and>
      ThermocoupleReads w' = 1)"
proof -
  have c: "NUM_PHASES + 1 < 6" "6 \<noteq> ActivePhase cooled" "ActivePhase cooled = 5"
    "\<not> isFaultCode cooled (nextReading cooled)" "\<not> IsFaulted cooled"
    "nextReading cooled = 40" "TemperatureC cooled = 0" "ThermocoupleReads cooled = 0"
    by (simp_all add: board_simps)
  note t = TransitionToPhase_beyond_cooling[of cooled 6]
  have same: "TransitionToPhase 5 cooled = Some cooled"
    using t c(3) by simp
  have p: "phase > NUM_PHASES + 1 \<and> phase \<noteq> ActivePhase cooled" if "phase = 6" for phase
    using that c by simp
  from t p have e: "TransitionToPhase 6 cooled = End False cooled"
    by blast
  from t p c(4) obtain w' where "TransitionToPhase 6 cooled = Some w'"
    and "IsFaulted w' \<longrightarrow> IsFaulted cooled" and "TemperatureC w' = nextReading cooled"
    and "ThermocoupleReads w' = Suc (ThermocoupleReads cooled)"
    and "PeakTemperatureC w' =
          (if nextReading cooled = TemperatureC cooled then 0 else max 0 (nextReading cooled))"
    and "(if nextReading cooled > real_of_int MAX_START_TEMP
          then IsActive w' \<and> ActivePhase w' = NUM_PHASES + 1
          else \<not> IsActive w' \<and> ActivePhase w' = 0)"
    by blast
  with c(5-8) have x: "\<exists>w'. TransitionToPhase 6 cooled = Some w' \<and> \<not> IsFaulted w' \<and>
      \<not> IsActive w' \<and> ActivePhase w' = 0 \<and> TemperatureC w' = 40 \<and> PeakTemperatureC w' = 40 \<and>
      ThermocoupleReads w' = 1"
    by (simp add: MAX_START_TEMP_def)
  show ?thesis using c(1,2,4,6) same e x by blast
qed

section \<open>C10: a reading equal to the stored temperature\<close>



end
